theory Spec2Isabelle
  imports Complex_Main
begin

section \<open>Python values used by the horoscope service\<close>

text \<open>
  A Python \<^verbatim>\<open>str\<close> is a sequence of Unicode code points, so a string is modelled as
  the list of its code points. \<open>ascii\<close> turns an ASCII literal into that form.
  Python floats are modelled as real numbers (rounding, \<^verbatim>\<open>nan\<close> and \<^verbatim>\<open>inf\<close> are
  not modelled).
\<close>

type_synonym ustr = "nat list"

definition ascii :: "string \<Rightarrow> ustr" where
  "ascii s = map of_char s"

datatype exn = IndexError | ValueError | TypeError | KeyError | External ustr

text \<open>\<^verbatim>\<open>int(x)\<close> on a float truncates towards zero.\<close>

definition py_int :: "real \<Rightarrow> int" where
  "py_int x = (if x < 0 then - \<lfloor>- x\<rfloor> else \<lfloor>x\<rfloor>)"

text \<open>
  Subscripting a list or tuple, \<^verbatim>\<open>xs[i]\<close>: positions 0 .. len-1 read from the front,
  positions -len .. -1 read from the back, anything else raises \<^verbatim>\<open>IndexError\<close>.
\<close>

definition getitem :: "'a list \<Rightarrow> int \<Rightarrow> exn + 'a" where
  "getitem xs i =
     (if 0 \<le> i \<and> i < int (length xs) then Inr (xs ! nat i)
      else if i < 0 \<and> - int (length xs) \<le> i then Inr (xs ! nat (int (length xs) + i))
      else Inl IndexError)"

section \<open>Zodiac classifier (\<^verbatim>\<open>get_zodiac_sign\<close>)\<close>

text \<open>
  The twelve names of \<^verbatim>\<open>zodiac_signs\<close>, in source order: Aries, Taurus, Gemini, Cancer,
  Leo, Virgo, Libra, Scorpio, Sagittarius, Capricorn, Aquarius, Pisces (in Japanese).
\<close>

definition zodiac_signs :: "ustr list" where
  "zodiac_signs =
     [[0x7261, 0x7f8a, 0x5ea7], [0x7261, 0x725b, 0x5ea7], [0x53cc, 0x5b50, 0x5ea7],
      [0x87f9, 0x5ea7], [0x7345, 0x5b50, 0x5ea7], [0x4e59, 0x5973, 0x5ea7],
      [0x5929, 0x79e4, 0x5ea7], [0x880d, 0x5ea7], [0x5c04, 0x624b, 0x5ea7],
      [0x5c71, 0x7f8a, 0x5ea7], [0x6c34, 0x74f6, 0x5ea7], [0x9b5a, 0x5ea7]]"

definition get_zodiac_sign :: "real \<Rightarrow> exn + ustr" where
  "get_zodiac_sign longitude =
     (let sign_index = py_int (longitude / 30) mod 12
      in getitem zodiac_signs sign_index)"

section \<open>Dynamic values, subscripts and unpacking\<close>

text \<open>
  The values that flow between the service and its libraries (JSON documents, the
  tuples returned by the ephemeris library, coordinates) are dynamically typed.
\<close>

datatype pyval =
    PNone
  | PBool bool
  | PInt int
  | PFloat real
  | PStr ustr
  | PList "pyval list"
  | PTuple "pyval list"
  | PDict "(ustr \<times> pyval) list"

text \<open>Sequencing of computations that may raise: the first exception wins.\<close>

definition bind_exn :: "exn + 'a \<Rightarrow> ('a \<Rightarrow> exn + 'b) \<Rightarrow> exn + 'b" where
  "bind_exn m f = (case m of Inl e \<Rightarrow> Inl e | Inr x \<Rightarrow> f x)"

text \<open>\<^verbatim>\<open>v[i]\<close> with an integer \<open>i\<close>.\<close>

fun subscript :: "pyval \<Rightarrow> int \<Rightarrow> exn + pyval" where
  "subscript (PTuple xs) i = getitem xs i"
| "subscript (PList xs) i = getitem xs i"
| "subscript (PStr s) i = map_sum id (\<lambda>c. PStr [c]) (getitem s i)"
| "subscript (PDict kvs) i = Inl KeyError"
| "subscript v i = Inl TypeError"

text \<open>\<^verbatim>\<open>v[k]\<close> with a string key \<open>k\<close>.\<close>

fun subscript_key :: "pyval \<Rightarrow> ustr \<Rightarrow> exn + pyval" where
  "subscript_key (PDict kvs) k = (case map_of kvs k of None \<Rightarrow> Inl KeyError | Some v \<Rightarrow> Inr v)"
| "subscript_key v k = Inl TypeError"

text \<open>
  The elements an iterable yields, as needed by \<^verbatim>\<open>a, b = v\<close>; \<open>unpack n v\<close> raises
  \<^verbatim>\<open>ValueError\<close> when \<open>v\<close> does not yield exactly \<open>n\<close> elements and \<^verbatim>\<open>TypeError\<close> when it
  is not iterable.
\<close>

fun elements :: "pyval \<Rightarrow> exn + pyval list" where
  "elements (PTuple xs) = Inr xs"
| "elements (PList xs) = Inr xs"
| "elements (PStr s) = Inr (map (\<lambda>c. PStr [c]) s)"
| "elements (PDict kvs) = Inr (map (\<lambda>kv. PStr (fst kv)) kvs)"
| "elements v = Inl TypeError"

definition unpack :: "nat \<Rightarrow> pyval \<Rightarrow> exn + pyval list" where
  "unpack n v =
     bind_exn (elements v) (\<lambda>xs. if length xs = n then Inr xs else Inl ValueError)"

text \<open>
  \<^verbatim>\<open>d[k] = v\<close> on an insertion-ordered dictionary: an existing key keeps its place, a new
  key goes to the end.
\<close>

fun dict_set :: "('k \<times> 'v) list \<Rightarrow> 'k \<Rightarrow> 'v \<Rightarrow> ('k \<times> 'v) list" where
  "dict_set [] k v = [(k, v)]"
| "dict_set ((k', v') # kvs) k v =
     (if k' = k then (k, v) # kvs else (k', v') # dict_set kvs k v)"

section \<open>Text predicates of the runtime\<close>

text \<open>
  \<^verbatim>\<open>str.isspace\<close> on one code point, which is also what \<^verbatim>\<open>\s\<close> matches in a regular
  expression over \<^verbatim>\<open>str\<close>.
\<close>

definition isspace :: "nat \<Rightarrow> bool" where
  "isspace c \<longleftrightarrow>
     (0x9 \<le> c \<and> c \<le> 0xd) \<or> (0x1c \<le> c \<and> c \<le> 0x20) \<or> c = 0x85 \<or> c = 0xa0 \<or>
     c = 0x1680 \<or> (0x2000 \<le> c \<and> c \<le> 0x200a) \<or> c = 0x2028 \<or> c = 0x2029 \<or>
     c = 0x202f \<or> c = 0x205f \<or> c = 0x3000"

text \<open>
  The decimal digits (\<^verbatim>\<open>\d\<close>, Unicode category Nd, Unicode 14): each entry is the code
  point of a digit zero, followed by the digits one to nine.
\<close>

definition decimal_zeros :: "nat list" where
  "decimal_zeros =
     [0x30, 0x660, 0x6f0, 0x7c0, 0x966, 0x9e6, 0xa66, 0xae6, 0xb66, 0xbe6, 0xc66, 0xce6,
      0xd66, 0xde6, 0xe50, 0xed0, 0xf20, 0x1040, 0x1090, 0x17e0, 0x1810, 0x1946, 0x19d0,
      0x1a80, 0x1a90, 0x1b50, 0x1bb0, 0x1c40, 0x1c50, 0xa620, 0xa8d0, 0xa900, 0xa9d0,
      0xa9f0, 0xaa50, 0xabf0, 0xff10, 0x104a0, 0x10d30, 0x11066, 0x110f0, 0x11136,
      0x111d0, 0x112f0, 0x11450, 0x114d0, 0x11650, 0x116c0, 0x11730, 0x118e0, 0x11950,
      0x11c50, 0x11d50, 0x11da0, 0x16a60, 0x16ac0, 0x16b50, 0x1d7ce, 0x1d7d8, 0x1d7e2,
      0x1d7ec, 0x1d7f6, 0x1e140, 0x1e2f0, 0x1e950, 0x1fbf0]"

definition decimal_value :: "nat \<Rightarrow> nat option" where
  "decimal_value c =
     (case filter (\<lambda>z. z \<le> c \<and> c < z + 10) decimal_zeros of
        [] \<Rightarrow> None
      | z # _ \<Rightarrow> Some (c - z))"

definition isdecimal :: "nat \<Rightarrow> bool" where
  "isdecimal c \<longleftrightarrow> decimal_value c \<noteq> None"

text \<open>\<^verbatim>\<open>str.strip()\<close>: leading and trailing whitespace removed.\<close>

definition strip :: "ustr \<Rightarrow> ustr" where
  "strip s = rev (dropWhile isspace (rev (dropWhile isspace s)))"

text \<open>
  \<^verbatim>\<open>str.split(sep)\<close> with a one-character separator: the pieces between the occurrences
  of \<open>sep\<close>, always at least one piece.
\<close>

fun split :: "nat \<Rightarrow> ustr \<Rightarrow> ustr list" where
  "split sep [] = [[]]"
| "split sep (c # cs) =
     (if c = sep then [] # split sep cs
      else (case split sep cs of p # ps \<Rightarrow> (c # p) # ps | [] \<Rightarrow> [[c]]))"

text \<open>
  \<^verbatim>\<open>int(s)\<close> on the text captured by a date or time directive: surrounding whitespace is
  ignored, the rest must be a non-empty run of decimal digits.
\<close>

definition int_of_text :: "ustr \<Rightarrow> exn + int" where
  "int_of_text s =
     (let t = strip s
      in if t = [] \<or> \<not> list_all isdecimal t then Inl ValueError
         else Inr (foldl (\<lambda>a c. 10 * a + int (the (decimal_value c))) 0 t))"

section \<open>\<^verbatim>\<open>datetime.strptime\<close>\<close>

text \<open>
  The library turns the format into a regular expression, one named group per
  directive, matches it at the start of the text with backtracking, and rejects the text
  when nothing matches or when text remains after the match. The matcher below returns
  every way to match, in the order a backtracking matcher tries them, as pairs of the
  captured groups and the remaining text; the library's match is the first.
\<close>

datatype cclass = Lit nat | Range nat nat | Digit | Space

fun cc_ok :: "cclass \<Rightarrow> nat \<Rightarrow> bool" where
  "cc_ok (Lit a) c \<longleftrightarrow> c = a"
| "cc_ok (Range a b) c \<longleftrightarrow> a \<le> c \<and> c \<le> b"
| "cc_ok Digit c \<longleftrightarrow> isdecimal c"
| "cc_ok Space c \<longleftrightarrow> isspace c"

datatype regex =
    Empty
  | Chr cclass
  | Seq regex regex
  | Alt regex regex
  | Plus cclass
  | Group char regex

type_synonym groups = "(char \<times> ustr) list"

fun matches :: "regex \<Rightarrow> ustr \<Rightarrow> (groups \<times> ustr) list" where
  "matches Empty s = [([], s)]"
| "matches (Chr cc) s =
     (case s of [] \<Rightarrow> [] | c # cs \<Rightarrow> if cc_ok cc c then [([], cs)] else [])"
| "matches (Seq a b) s =
     concat (map (\<lambda>(g1, r1). map (\<lambda>(g2, r2). (g1 @ g2, r2)) (matches b r1)) (matches a s))"
| "matches (Alt a b) s = matches a s @ matches b s"
| "matches (Plus cc) s =
     map (\<lambda>n. ([], drop n s)) (rev [1 ..< Suc (length (takeWhile (cc_ok cc) s))])"
| "matches (Group name a) s =
     map (\<lambda>(g, r). ((name, take (length s - length r) s) # g, r)) (matches a s)"

text \<open>Ranges of ASCII digits, as written in the directive table.\<close>

definition dig :: "nat \<Rightarrow> nat \<Rightarrow> regex" where
  "dig a b = Chr (Range (0x30 + a) (0x30 + b))"

definition one :: "nat \<Rightarrow> regex" where
  "one a = Chr (Lit (0x30 + a))"

text \<open>
  The directive table:
  \<^verbatim>\<open>%Y\<close> is \<^verbatim>\<open>\d\d\d\d\<close>,
  \<^verbatim>\<open>%m\<close> is \<^verbatim>\<open>1[0-2]|0[1-9]|[1-9]\<close>,
  \<^verbatim>\<open>%d\<close> is \<^verbatim>\<open>3[0-1]|[1-2]\d|0[1-9]|[1-9]| [1-9]\<close>,
  \<^verbatim>\<open>%H\<close> is \<^verbatim>\<open>2[0-3]|[0-1]\d|\d\<close>,
  \<^verbatim>\<open>%M\<close> is \<^verbatim>\<open>[0-5]\d|\d\<close>.
  The formats of the source use these five directives only; a run of whitespace in a
  format stands for \<^verbatim>\<open>\s+\<close>, any other character for itself.
\<close>

datatype fitem = Directive char | Literal nat | Whitespace

fun directive :: "char \<Rightarrow> regex" where
  "directive c =
     (if c = CHR ''Y'' then
        Group c (Seq (Chr Digit) (Seq (Chr Digit) (Seq (Chr Digit) (Chr Digit))))
      else if c = CHR ''m'' then
        Group c (Alt (Seq (one 1) (dig 0 2)) (Alt (Seq (one 0) (dig 1 9)) (dig 1 9)))
      else if c = CHR ''d'' then
        Group c (Alt (Seq (one 3) (dig 0 1)) (Alt (Seq (dig 1 2) (Chr Digit))
          (Alt (Seq (one 0) (dig 1 9)) (Alt (dig 1 9) (Seq (Chr (Lit 0x20)) (dig 1 9))))))
      else if c = CHR ''H'' then
        Group c (Alt (Seq (one 2) (dig 0 3)) (Alt (Seq (dig 0 1) (Chr Digit)) (Chr Digit)))
      else
        Group c (Alt (Seq (dig 0 5) (Chr Digit)) (Chr Digit)))"

fun item_regex :: "fitem \<Rightarrow> regex" where
  "item_regex (Directive c) = directive c"
| "item_regex (Literal a) = Chr (Lit a)"
| "item_regex Whitespace = Plus Space"

fun pattern :: "fitem list \<Rightarrow> regex" where
  "pattern [] = Empty"
| "pattern (x # xs) = Seq (item_regex x) (pattern xs)"

text \<open>The three formats of the source.\<close>

definition fmt_date :: "fitem list" where
  "fmt_date = [Directive CHR ''Y'', Literal 0x2d, Directive CHR ''m'', Literal 0x2d,
               Directive CHR ''d'']"

definition fmt_time :: "fitem list" where
  "fmt_time = [Directive CHR ''H'', Literal 0x3a, Directive CHR ''M'']"

definition fmt_datetime :: "fitem list" where
  "fmt_datetime = fmt_date @ [Whitespace] @ fmt_time"

record datetime =
  year :: int
  month :: int
  day :: int
  hour :: int
  minute :: int
  second :: int

definition isleap :: "int \<Rightarrow> bool" where
  "isleap y \<longleftrightarrow> y mod 4 = 0 \<and> (y mod 100 \<noteq> 0 \<or> y mod 400 = 0)"

definition days_in_month :: "int \<Rightarrow> int \<Rightarrow> int" where
  "days_in_month y m =
     (if m = 2 then (if isleap y then 29 else 28)
      else if m = 4 \<or> m = 6 \<or> m = 9 \<or> m = 11 then 30 else 31)"

text \<open>A captured group as a number, or the default when the format has no such group.\<close>

definition group_int :: "groups \<Rightarrow> char \<Rightarrow> int \<Rightarrow> exn + int" where
  "group_int g name dflt =
     (case map_of g name of None \<Rightarrow> Inr dflt | Some t \<Rightarrow> int_of_text t)"

text \<open>
  \<^verbatim>\<open>datetime.strptime(data_string, format)\<close>. Every failure is a \<^verbatim>\<open>ValueError\<close>: no
  match, text left over, or a date that does not exist (year 0, 30 February).
\<close>

definition strptime :: "ustr \<Rightarrow> fitem list \<Rightarrow> exn + datetime" where
  "strptime data_string format =
     (case matches (pattern format) data_string of
        [] \<Rightarrow> Inl ValueError
      | (g, rest) # _ \<Rightarrow>
          if rest \<noteq> [] then Inl ValueError
          else
            bind_exn (group_int g CHR ''Y'' 1900) (\<lambda>y.
            bind_exn (group_int g CHR ''m'' 1) (\<lambda>m.
            bind_exn (group_int g CHR ''d'' 1) (\<lambda>d.
            bind_exn (group_int g CHR ''H'' 0) (\<lambda>h.
            bind_exn (group_int g CHR ''M'' 0) (\<lambda>mi.
              if 1 \<le> y \<and> y \<le> 9999 \<and> 1 \<le> m \<and> m \<le> 12 \<and>
                 1 \<le> d \<and> d \<le> days_in_month y m \<and>
                 0 \<le> h \<and> h \<le> 23 \<and> 0 \<le> mi \<and> mi \<le> 59
              then Inr \<lparr>year = y, month = m, day = d, hour = h, minute = mi, second = 0\<rparr>
              else Inl ValueError))))))"

section \<open>Natal chart (\<^verbatim>\<open>calculate_natal_chart\<close>)\<close>

text \<open>
  The time-zone database (\<^verbatim>\<open>pytz\<close>) and the ephemeris library (\<^verbatim>\<open>swisseph\<close>) are not part
  of the program; the chart computation takes them as parameters. Each call either
  raises or returns a dynamically typed value, and the program decides what it does with
  its shape. The library's named constants are kept symbolic.
\<close>

datatype swe_const =
    SUN | MOON | MERCURY | VENUS | MARS | JUPITER | SATURN | URANUS | NEPTUNE | PLUTO
  | FLG_SWIEPH | GREG_CAL | JUL_CAL

record ephemeris =
  localize_to_utc :: "ustr \<Rightarrow> datetime \<Rightarrow> exn + datetime"
  utc_to_jd :: "int \<Rightarrow> int \<Rightarrow> int \<Rightarrow> int \<Rightarrow> int \<Rightarrow> int \<Rightarrow> swe_const \<Rightarrow> exn + pyval"
  calc_ut :: "pyval \<Rightarrow> swe_const \<Rightarrow> swe_const \<Rightarrow> exn + pyval"
  houses :: "pyval \<Rightarrow> pyval \<Rightarrow> pyval \<Rightarrow> ustr \<Rightarrow> exn + pyval"

text \<open>
  \<open>localize_to_utc eph zone dt\<close> stands for \<^verbatim>\<open>pytz.timezone(zone).localize(dt)\<close> followed by
  \<^verbatim>\<open>.astimezone(pytz.utc)\<close>; the other three fields are the functions of the same name.
  The source uses the ten body numbers and \<open>FLG_SWIEPH\<close>; \<open>GREG_CAL\<close> and \<open>JUL_CAL\<close> are the
  two calendar flags of the library, which the source does not use.
\<close>

type_synonym chart = "(ustr \<times> pyval) list"

definition planets :: "(ustr \<times> swe_const) list" where
  "planets =
     [(ascii ''Sun'', SUN), (ascii ''Moon'', MOON), (ascii ''Mercury'', MERCURY),
      (ascii ''Venus'', VENUS), (ascii ''Mars'', MARS), (ascii ''Jupiter'', JUPITER),
      (ascii ''Saturn'', SATURN), (ascii ''Uranus'', URANUS), (ascii ''Neptune'', NEPTUNE),
      (ascii ''Pluto'', PLUTO)]"

text \<open>\<^verbatim>\<open>a, b = v\<close> and \<^verbatim>\<open>a, b, c = v\<close>.\<close>

definition unpack2 :: "pyval \<Rightarrow> exn + pyval \<times> pyval" where
  "unpack2 v =
     bind_exn (unpack 2 v) (\<lambda>xs. case xs of [a, b] \<Rightarrow> Inr (a, b) | _ \<Rightarrow> Inl ValueError)"

definition unpack3 :: "pyval \<Rightarrow> exn + pyval \<times> pyval \<times> pyval" where
  "unpack3 v =
     bind_exn (unpack 3 v) (\<lambda>xs. case xs of [a, b, c] \<Rightarrow> Inr (a, b, c) | _ \<Rightarrow> Inl ValueError)"

text \<open>
  One round of the loop over the planets: \<^verbatim>\<open>xx, ret = swe.calc_ut(jd_utc[0], p_id,
  swe.FLG_SWIEPH)\<close> and the pair \<^verbatim>\<open>(xx[0], xx[1])\<close> of longitude and speed that is stored.
  The returned flag \<open>ret\<close> is not looked at.
\<close>

definition planet_position :: "ephemeris \<Rightarrow> pyval \<Rightarrow> swe_const \<Rightarrow> exn + pyval" where
  "planet_position eph jd_utc p_id =
     bind_exn (subscript jd_utc 0) (\<lambda>jd.
     bind_exn (calc_ut eph jd p_id FLG_SWIEPH) (\<lambda>r.
     bind_exn (unpack2 r) (\<lambda>(xx, ret).
     bind_exn (subscript xx 0) (\<lambda>x0.
     bind_exn (subscript xx 1) (\<lambda>x1.
       Inr (PTuple [x0, x1]))))))"

fun calc_planets ::
  "ephemeris \<Rightarrow> pyval \<Rightarrow> (ustr \<times> swe_const) list \<Rightarrow> chart \<Rightarrow> exn + chart" where
  "calc_planets eph jd_utc [] natal_positions = Inr natal_positions"
| "calc_planets eph jd_utc ((name, p_id) # rest) natal_positions =
     bind_exn (planet_position eph jd_utc p_id) (\<lambda>pos.
       calc_planets eph jd_utc rest (dict_set natal_positions name pos))"

text \<open>The body of the \<^verbatim>\<open>try\<close> block: any exception ends it.\<close>

definition chart_body ::
  "ephemeris \<Rightarrow> ustr \<Rightarrow> ustr \<Rightarrow> pyval \<Rightarrow> pyval \<Rightarrow> exn + chart" where
  "chart_body eph birth_date_str birth_time_str latitude longitude =
     bind_exn (strptime (birth_date_str @ ascii '' '' @ birth_time_str) fmt_datetime)
       (\<lambda>birth_datetime.
     bind_exn (localize_to_utc eph (ascii ''Asia/Tokyo'') birth_datetime) (\<lambda>utc_dt.
     bind_exn (utc_to_jd eph (year utc_dt) (month utc_dt) (day utc_dt)
                 (hour utc_dt) (minute utc_dt) (second utc_dt) FLG_SWIEPH) (\<lambda>jd_utc.
     bind_exn (calc_planets eph jd_utc planets []) (\<lambda>natal_positions.
     bind_exn (subscript jd_utc 0) (\<lambda>jd.
     bind_exn (houses eph jd latitude longitude (ascii ''P'')) (\<lambda>r.
     bind_exn (unpack3 r) (\<lambda>(cusps, ascmc, ret).
     bind_exn (subscript ascmc 0) (\<lambda>asc.
     bind_exn (subscript ascmc 1) (\<lambda>mc.
       Inr (dict_set (dict_set natal_positions (ascii ''ASC'') (PTuple [asc]))
              (ascii ''MC'') (PTuple [mc])))))))))))"

text \<open>\<^verbatim>\<open>except Exception\<close>: every exception of the body becomes the result \<^verbatim>\<open>None\<close>.\<close>

definition calculate_natal_chart ::
  "ephemeris \<Rightarrow> ustr \<Rightarrow> ustr \<Rightarrow> pyval \<Rightarrow> pyval \<Rightarrow> chart option" where
  "calculate_natal_chart eph birth_date_str birth_time_str latitude longitude =
     (case chart_body eph birth_date_str birth_time_str latitude longitude of
        Inl e \<Rightarrow> None
      | Inr natal_positions \<Rightarrow> Some natal_positions)"

section \<open>The interface of the ephemeris library\<close>



text \<open>
  A stand-in with this interface, for instantiating the theorems on concrete inputs. The
  zone conversion answers with 1990-01-01 03:30 UTC, the moment of the birth time
  1990-01-01 12:30 in Tokyo; every body is at longitude 280.5 and latitude 0.0002 with a
  speed of 1.02 in longitude; the Ascendant is at 15 and the Midheaven at 270 degrees.
\<close>

definition example_ephemeris :: ephemeris where
  "example_ephemeris =
     \<lparr>localize_to_utc = (\<lambda>zone dt.
        Inr \<lparr>year = 1990, month = 1, day = 1, hour = 3, minute = 30, second = 0\<rparr>),
      utc_to_jd = (\<lambda>y m d h mi s cal.
        if cal = GREG_CAL \<or> cal = JUL_CAL
        then Inr (PTuple [PFloat 2447892.6465, PFloat 2447892.6458])
        else Inl (External (ascii ''invalid calendar flag''))),
      calc_ut = (\<lambda>jd p flags.
        Inr (PTuple [PTuple [PFloat 280.5, PFloat 0.0002, PFloat 0.9833,
                             PFloat 1.02, PFloat 0.00001, PFloat 0.00002],
                     PInt 2])),
      houses = (\<lambda>jd la lo hsys.
        Inr (PTuple [PTuple (map PFloat [15, 40, 68, 98, 130, 163, 195, 220, 248, 278, 310, 343]),
                     PTuple (map PFloat [15, 270, 271.5, 190, 12, 14, 200, 20, 0, 0])]))\<rparr>"

text \<open>
  Two variants that depart from the documented interface, used to reach the later steps
  of the computation. The first takes \<open>FLG_SWIEPH\<close> for a calendar flag; the second does
  so too and its \<open>calc_ut\<close> raises for Mars, as when an ephemeris file is missing.
\<close>

definition lenient_ephemeris :: ephemeris where
  "lenient_ephemeris =
     example_ephemeris
       \<lparr>utc_to_jd := (\<lambda>y m d h mi s cal.
          Inr (PTuple [PFloat 2447892.6465, PFloat 2447892.6458]))\<rparr>"

definition broken_ephemeris :: ephemeris where
  "broken_ephemeris =
     lenient_ephemeris
       \<lparr>calc_ut := (\<lambda>jd p flags.
          if p = MARS then Inl (External (ascii ''SwissEph file not found''))
          else calc_ut lenient_ephemeris jd p flags)\<rparr>"

section \<open>Texts of the service\<close>

text \<open>
  The Japanese texts of the source, written as code points. The first nine belong to
  \<^verbatim>\<open>handle_message\<close>, the others to \<^verbatim>\<open>generate_horoscope_interpretation\<close>.
\<close>

text \<open>The greeting \<^verbatim>\<open>konnichiwa\<close> (hello), five hiragana letters.\<close>

definition greeting :: ustr where
  "greeting =
     [0x3053, 0x3093, 0x306b, 0x3061, 0x306f]"

text \<open>Reply to the greeting: hello, the service is free, send the date and time of birth
  (example 1990-01-01 12:30) and the prefecture and municipality of the birthplace.\<close>

definition msg_greeting :: ustr where
  "msg_greeting =
     [0x3053, 0x3093, 0x306b, 0x3061, 0x306f, 0xff01, 0x7121, 0x6599, 0x3067,
      0x30db, 0x30ed, 0x30b9, 0x30b3, 0x30fc, 0x30d7, 0x3092, 0x8a3a, 0x65ad,
      0x3057, 0x307e, 0x3059, 0x3002, 0x8a95, 0x751f, 0x5e74, 0x6708, 0x65e5,
      0x3001, 0x51fa, 0x751f, 0x6642, 0x9593, 0xff08, 0x4f8b, 0x3a, 0x20, 0x31,
      0x39, 0x39, 0x30, 0x2d, 0x30, 0x31, 0x2d, 0x30, 0x31, 0x20, 0x31, 0x32, 0x3a,
      0x33, 0x30, 0xff09, 0x3001, 0x305d, 0x3057, 0x3066, 0x51fa, 0x751f, 0x5730,
      0x306e, 0x90fd, 0x9053, 0x5e9c, 0x770c, 0x3068, 0x5e02, 0x533a, 0x753a,
      0x6751, 0x3092, 0x6559, 0x3048, 0x3066, 0x304f, 0x3060, 0x3055, 0x3044,
      0x3002, 0x28, 0x4f8b, 0x3a, 0x20, 0x6771, 0x4eac, 0x90fd, 0x2c, 0x20, 0x6e2f,
      0x533a, 0x29]"

text \<open>Thank you for the request, the interpretation is being generated, please wait.\<close>

definition msg_loading :: ustr where
  "msg_loading =
     [0x3054, 0x4f9d, 0x983c, 0x3042, 0x308a, 0x304c, 0x3068, 0x3046, 0x3054,
      0x3056, 0x3044, 0x307e, 0x3059, 0xff01, 0x30db, 0x30ed, 0x30b9, 0x30b3,
      0x30fc, 0x30d7, 0x306e, 0x89e3, 0x91c8, 0x3092, 0x751f, 0x6210, 0x4e2d,
      0x3067, 0x3059, 0x3002, 0x5c11, 0x3005, 0x304a, 0x5f85, 0x3061, 0x304f,
      0x3060, 0x3055, 0x3044, 0x2e, 0x2e, 0x2e]"

text \<open>The coordinates of the birthplace could not be obtained; check the prefecture and
  municipality.\<close>

definition msg_no_coordinates :: ustr where
  "msg_no_coordinates =
     [0x51fa, 0x751f, 0x5730, 0x306e, 0x5ea7, 0x6a19, 0x3092, 0x53d6, 0x5f97,
      0x3067, 0x304d, 0x307e, 0x305b, 0x3093, 0x3067, 0x3057, 0x305f, 0x3002,
      0x90fd, 0x9053, 0x5e9c, 0x770c, 0x3068, 0x5e02, 0x533a, 0x753a, 0x6751,
      0x304c, 0x6b63, 0x3057, 0x3044, 0x304b, 0x3054, 0x78ba, 0x8a8d, 0x304f,
      0x3060, 0x3055, 0x3044, 0x3002]"

text \<open>An error occurred while computing the horoscope; check the input.\<close>

definition msg_calculation_failed :: ustr where
  "msg_calculation_failed =
     [0x30db, 0x30ed, 0x30b9, 0x30b3, 0x30fc, 0x30d7, 0x306e, 0x8a08, 0x7b97,
      0x4e2d, 0x306b, 0x30a8, 0x30e9, 0x30fc, 0x304c, 0x767a, 0x751f, 0x3057,
      0x307e, 0x3057, 0x305f, 0x3002, 0x5165, 0x529b, 0x60c5, 0x5831, 0x3092,
      0x3054, 0x78ba, 0x8a8d, 0x304f, 0x3060, 0x3055, 0x3044, 0x3002]"

text \<open>Here is the horoscope result, followed by a line break.\<close>

definition msg_result_prefix :: ustr where
  "msg_result_prefix =
     [0x30db, 0x30ed, 0x30b9, 0x30b3, 0x30fc, 0x30d7, 0x8a3a, 0x65ad, 0x7d50,
      0x679c, 0x3067, 0x3059, 0xff1a, 0xa]"

text \<open>The input format is not correct, with an example.\<close>

definition msg_invalid_format :: ustr where
  "msg_invalid_format =
     [0x5165, 0x529b, 0x5f62, 0x5f0f, 0x304c, 0x6b63, 0x3057, 0x304f, 0x3042,
      0x308a, 0x307e, 0x305b, 0x3093, 0x3002, 0x4f8b, 0x3a, 0x20, 0x31, 0x39, 0x39,
      0x30, 0x2d, 0x30, 0x31, 0x2d, 0x30, 0x31, 0x20, 0x31, 0x32, 0x3a, 0x33, 0x30,
      0x2c, 0x20, 0x6771, 0x4eac, 0x90fd, 0x2c, 0x20, 0x6e2f, 0x533a]"

text \<open>The format of the date or time is not correct, with an example.\<close>

definition msg_invalid_datetime :: ustr where
  "msg_invalid_datetime =
     [0x65e5, 0x4ed8, 0x307e, 0x305f, 0x306f, 0x6642, 0x9593, 0x306e, 0x5f62,
      0x5f0f, 0x304c, 0x6b63, 0x3057, 0x304f, 0x3042, 0x308a, 0x307e, 0x305b,
      0x3093, 0x3002, 0x4f8b, 0x3a, 0x20, 0x31, 0x39, 0x39, 0x30, 0x2d, 0x30, 0x31,
      0x2d, 0x30, 0x31, 0x20, 0x31, 0x32, 0x3a, 0x33, 0x30, 0x2c, 0x20, 0x6771,
      0x4eac, 0x90fd, 0x2c, 0x20, 0x6e2f, 0x533a]"

text \<open>An unexpected error occurred while interpreting the horoscope; try again later.\<close>

definition msg_unexpected_error :: ustr where
  "msg_unexpected_error =
     [0x30db, 0x30ed, 0x30b9, 0x30b3, 0x30fc, 0x30d7, 0x306e, 0x89e3, 0x91c8,
      0x4e2d, 0x306b, 0x4e88, 0x671f, 0x305b, 0x306c, 0x30a8, 0x30e9, 0x30fc,
      0x304c, 0x767a, 0x751f, 0x3057, 0x307e, 0x3057, 0x305f, 0x3002, 0x6642,
      0x9593, 0x3092, 0x7f6e, 0x3044, 0x3066, 0x518d, 0x5ea6, 0x304a, 0x8a66,
      0x3057, 0x304f, 0x3060, 0x3055, 0x3044, 0x3002]"

text \<open>An error occurred while interpreting the horoscope: the API key is not set.\<close>

definition msg_no_api_key :: ustr where
  "msg_no_api_key =
     [0x30db, 0x30ed, 0x30b9, 0x30b3, 0x30fc, 0x30d7, 0x306e, 0x89e3, 0x91c8,
      0x4e2d, 0x306b, 0x30a8, 0x30e9, 0x30fc, 0x304c, 0x767a, 0x751f, 0x3057,
      0x307e, 0x3057, 0x305f, 0x3002, 0x41, 0x50, 0x49, 0x30ad, 0x30fc, 0x304c,
      0x8a2d, 0x5b9a, 0x3055, 0x308c, 0x3066, 0x3044, 0x307e, 0x305b, 0x3093, 0x3002]"

text \<open>You are an experienced astrologer; from the positions and house cusps below, write a
  detailed and insightful interpretation of the person's character and tendencies.\<close>

definition prompt_header :: ustr where
  "prompt_header =
     [0x3042, 0x306a, 0x305f, 0x306f, 0x7d4c, 0x9a13, 0x8c4a, 0x5bcc, 0x306a,
      0x5360, 0x661f, 0x8853, 0x5e2b, 0x3067, 0x3059, 0x3002, 0x4ee5, 0x4e0b,
      0x306e, 0x5929, 0x4f53, 0x4f4d, 0x7f6e, 0x3068, 0x30cf, 0x30a6, 0x30b9,
      0x30ab, 0x30b9, 0x30d7, 0x60c5, 0x5831, 0x306b, 0x57fa, 0x3065, 0x3044,
      0x3066, 0x3001, 0x305d, 0x306e, 0x4eba, 0x306e, 0x6027, 0x683c, 0x3084,
      0x50be, 0x5411, 0x306b, 0x3064, 0x3044, 0x3066, 0x3001, 0x8a73, 0x7d30,
      0x304b, 0x3064, 0x6d1e, 0x5bdf, 0x306b, 0x6e80, 0x3061, 0x305f, 0x30db,
      0x30ed, 0x30b9, 0x30b3, 0x30fc, 0x30d7, 0x306e, 0x89e3, 0x91c8, 0x3092,
      0x751f, 0x6210, 0x3057, 0x3066, 0x304f, 0x3060, 0x3055, 0x3044, 0x3002, 0xa,
      0xa]"

text \<open>The heading of the list of positions.\<close>

definition prompt_positions :: ustr where
  "prompt_positions =
     [0x2a, 0x2a, 0x5929, 0x4f53, 0x4f4d, 0x7f6e, 0x3a, 0x2a, 0x2a, 0xa]"

text \<open>The unit (degrees), a closing parenthesis and a line break.\<close>

definition prompt_degrees :: ustr where
  "prompt_degrees =
     [0x5ea6, 0x29, 0xa]"

text \<open>Summarise briefly what each position means and explain the overall character.\<close>

definition prompt_footer :: ustr where
  "prompt_footer =
     [0xa, 0x89e3, 0x91c8, 0x306f, 0x3001, 0x5404, 0x5929, 0x4f53, 0x306e, 0x4f4d,
      0x7f6e, 0x304c, 0x793a, 0x3059, 0x610f, 0x5473, 0x3092, 0x7c21, 0x6f54,
      0x306b, 0x307e, 0x3068, 0x3081, 0x3001, 0x5168, 0x4f53, 0x7684, 0x306a,
      0x6027, 0x683c, 0x50be, 0x5411, 0x3092, 0x8aac, 0x660e, 0x3057, 0x3066,
      0x304f, 0x3060, 0x3055, 0x3044, 0x3002]"

text \<open>An error occurred while interpreting the horoscope: the AI gave no response.\<close>

definition msg_no_response :: ustr where
  "msg_no_response =
     [0x30db, 0x30ed, 0x30b9, 0x30b3, 0x30fc, 0x30d7, 0x306e, 0x89e3, 0x91c8,
      0x4e2d, 0x306b, 0x30a8, 0x30e9, 0x30fc, 0x304c, 0x767a, 0x751f, 0x3057,
      0x307e, 0x3057, 0x305f, 0x3002, 0x41, 0x49, 0x304b, 0x3089, 0x306e, 0x5fdc,
      0x7b54, 0x304c, 0x3042, 0x308a, 0x307e, 0x305b, 0x3093, 0x3067, 0x3057,
      0x305f, 0x3002]"

text \<open>A network error occurred, possibly a permission problem; try again later.\<close>

definition msg_forbidden :: ustr where
  "msg_forbidden =
     [0x30db, 0x30ed, 0x30b9, 0x30b3, 0x30fc, 0x30d7, 0x306e, 0x89e3, 0x91c8,
      0x4e2d, 0x306b, 0x30cd, 0x30c3, 0x30c8, 0x30ef, 0x30fc, 0x30af, 0x30a8,
      0x30e9, 0x30fc, 0x304c, 0x767a, 0x751f, 0x3057, 0x307e, 0x3057, 0x305f,
      0x3002, 0x6a29, 0x9650, 0x306e, 0x554f, 0x984c, 0x306e, 0x53ef, 0x80fd,
      0x6027, 0x304c, 0x3042, 0x308a, 0x307e, 0x3059, 0x3002, 0x6642, 0x9593,
      0x3092, 0x7f6e, 0x3044, 0x3066, 0x518d, 0x5ea6, 0x304a, 0x8a66, 0x3057,
      0x304f, 0x3060, 0x3055, 0x3044, 0x3002]"

text \<open>A network error occurred, the usage limit of the API was exceeded; try again later.\<close>

definition msg_quota :: ustr where
  "msg_quota =
     [0x30db, 0x30ed, 0x30b9, 0x30b3, 0x30fc, 0x30d7, 0x306e, 0x89e3, 0x91c8,
      0x4e2d, 0x306b, 0x30cd, 0x30c3, 0x30c8, 0x30ef, 0x30fc, 0x30af, 0x30a8,
      0x30e9, 0x30fc, 0x304c, 0x767a, 0x751f, 0x3057, 0x307e, 0x3057, 0x305f,
      0x3002, 0x41, 0x50, 0x49, 0x306e, 0x5229, 0x7528, 0x5236, 0x9650, 0x3092,
      0x8d85, 0x904e, 0x3057, 0x307e, 0x3057, 0x305f, 0x3002, 0x6642, 0x9593,
      0x3092, 0x7f6e, 0x3044, 0x3066, 0x518d, 0x5ea6, 0x304a, 0x8a66, 0x3057,
      0x304f, 0x3060, 0x3055, 0x3044, 0x3002]"

text \<open>A network error occurred, the response of the AI timed out; try again later.\<close>

definition msg_timeout :: ustr where
  "msg_timeout =
     [0x30db, 0x30ed, 0x30b9, 0x30b3, 0x30fc, 0x30d7, 0x306e, 0x89e3, 0x91c8,
      0x4e2d, 0x306b, 0x30cd, 0x30c3, 0x30c8, 0x30ef, 0x30fc, 0x30af, 0x30a8,
      0x30e9, 0x30fc, 0x304c, 0x767a, 0x751f, 0x3057, 0x307e, 0x3057, 0x305f,
      0x3002, 0x41, 0x49, 0x304b, 0x3089, 0x306e, 0x5fdc, 0x7b54, 0x304c, 0x30bf,
      0x30a4, 0x30e0, 0x30a2, 0x30a6, 0x30c8, 0x3057, 0x307e, 0x3057, 0x305f,
      0x3002, 0x6642, 0x9593, 0x3092, 0x7f6e, 0x3044, 0x3066, 0x518d, 0x5ea6,
      0x304a, 0x8a66, 0x3057, 0x304f, 0x3060, 0x3055, 0x3044, 0x3002]"

text \<open>A network error occurred; try again later.\<close>

definition msg_network_error :: ustr where
  "msg_network_error =
     [0x30db, 0x30ed, 0x30b9, 0x30b3, 0x30fc, 0x30d7, 0x306e, 0x89e3, 0x91c8,
      0x4e2d, 0x306b, 0x30cd, 0x30c3, 0x30c8, 0x30ef, 0x30fc, 0x30af, 0x30a8,
      0x30e9, 0x30fc, 0x304c, 0x767a, 0x751f, 0x3057, 0x307e, 0x3057, 0x305f,
      0x3002, 0x6642, 0x9593, 0x3092, 0x7f6e, 0x3044, 0x3066, 0x518d, 0x5ea6,
      0x304a, 0x8a66, 0x3057, 0x304f, 0x3060, 0x3055, 0x3044, 0x3002]"

section \<open>Collaborators and observable calls\<close>

text \<open>
  The messaging API, the geocoding web service and the text-generation service are
  outside the program. What the program does with them is recorded as a list of events,
  in the order of the calls; \<open>CalculateChart\<close> marks a call of
  \<^verbatim>\<open>calculate_natal_chart\<close> with its arguments. Logging is not modelled.
\<close>

datatype event =
    Reply ustr
  | Push ustr
  | HttpGet ustr
  | CalculateChart ustr ustr pyval pyval
  | GenerateContent "ustr list"

fun is_chart_call :: "event \<Rightarrow> bool" where
  "is_chart_call (CalculateChart d t lat lon) \<longleftrightarrow> True"
| "is_chart_call e \<longleftrightarrow> False"

fun is_http_get :: "event \<Rightarrow> bool" where
  "is_http_get (HttpGet url) \<longleftrightarrow> True"
| "is_http_get e \<longleftrightarrow> False"

fun is_generate :: "event \<Rightarrow> bool" where
  "is_generate (GenerateContent parts) \<longleftrightarrow> True"
| "is_generate e \<longleftrightarrow> False"

text \<open>
  An HTTP request either fails (\<^verbatim>\<open>requests.get\<close> or \<^verbatim>\<open>raise_for_status\<close> raises a
  \<^verbatim>\<open>RequestException\<close>), or delivers a body that is not JSON, or delivers a JSON document.
  A text generation either raises (with the text of the exception), or returns a
  response without text, or returns text.
\<close>

datatype http_result = RequestFailed | BadJson | Json pyval

datatype gemini_result = GeminiRaises ustr | GeminiNoText | GeminiText ustr

record services =
  google_geocoding_api_key :: "ustr option"
  http_get :: "ustr \<Rightarrow> http_result"
  line_ok :: "event \<Rightarrow> bool"
  generate_content :: "ustr list \<Rightarrow> gemini_result"
  ephemeris_of :: ephemeris

text \<open>
  \<open>line_ok svc call\<close> tells whether the messaging API accepts the call; otherwise
  \<^verbatim>\<open>reply_message\<close> or \<^verbatim>\<open>push_message\<close> raises. Reply tokens and user ids are left out.
\<close>

type_synonym 'a action = "event list \<times> (exn + 'a)"

definition pure :: "exn + 'a \<Rightarrow> 'a action" where
  "pure r = ([], r)"

definition seq :: "'a action \<Rightarrow> ('a \<Rightarrow> 'b action) \<Rightarrow> 'b action" where
  "seq m f =
     (case m of
        (tr, Inl e) \<Rightarrow> (tr, Inl e)
      | (tr, Inr x) \<Rightarrow> (case f x of (tr', r) \<Rightarrow> (tr @ tr', r)))"

definition send :: "services \<Rightarrow> event \<Rightarrow> unit action" where
  "send svc call =
     ([call], if line_ok svc call then Inr () else Inl (External (ascii ''LineBotApiError'')))"

text \<open>Truth value of a value in a condition.\<close>

fun truthy :: "pyval \<Rightarrow> bool" where
  "truthy PNone \<longleftrightarrow> False"
| "truthy (PBool b) \<longleftrightarrow> b"
| "truthy (PInt i) \<longleftrightarrow> i \<noteq> 0"
| "truthy (PFloat r) \<longleftrightarrow> r \<noteq> 0"
| "truthy (PStr s) \<longleftrightarrow> s \<noteq> []"
| "truthy (PList xs) \<longleftrightarrow> xs \<noteq> []"
| "truthy (PTuple xs) \<longleftrightarrow> xs \<noteq> []"
| "truthy (PDict kvs) \<longleftrightarrow> kvs \<noteq> []"

section \<open>Geocoding (\<^verbatim>\<open>get_coordinates\<close>)\<close>

text \<open>
  What is done with the decoded document: \<^verbatim>\<open>data['status'] == 'OK' and data['results']\<close>,
  then the path to the first location. A missing key or a value of the wrong kind raises
  \<^verbatim>\<open>KeyError\<close>, \<^verbatim>\<open>TypeError\<close> or \<^verbatim>\<open>IndexError\<close>, which the function does not catch.
\<close>

definition read_location :: "pyval \<Rightarrow> exn + pyval \<times> pyval" where
  "read_location data =
     bind_exn (subscript_key data (ascii ''status'')) (\<lambda>status.
       if status \<noteq> PStr (ascii ''OK'') then Inr (PNone, PNone)
       else
         bind_exn (subscript_key data (ascii ''results'')) (\<lambda>results.
           if \<not> truthy results then Inr (PNone, PNone)
           else
             bind_exn (subscript_key data (ascii ''results'')) (\<lambda>results.
             bind_exn (subscript results 0) (\<lambda>first.
             bind_exn (subscript_key first (ascii ''geometry'')) (\<lambda>geometry.
             bind_exn (subscript_key geometry (ascii ''location'')) (\<lambda>location.
             bind_exn (subscript_key location (ascii ''lat'')) (\<lambda>lat.
             bind_exn (subscript_key location (ascii ''lng'')) (\<lambda>lon.
               Inr (lat, lon)))))))))"

definition geocode_url :: "ustr \<Rightarrow> ustr \<Rightarrow> ustr \<Rightarrow> ustr" where
  "geocode_url city region key =
     ascii ''https://maps.googleapis.com/maps/api/geocode/json?address='' @
     (city @ ascii '', '' @ region @ ascii '', Japan'') @ ascii ''&key='' @ key"

definition get_coordinates :: "services \<Rightarrow> ustr \<Rightarrow> ustr \<Rightarrow> (pyval \<times> pyval) action" where
  "get_coordinates svc city region =
     (case google_geocoding_api_key svc of
        None \<Rightarrow> ([], Inr (PNone, PNone))
      | Some key \<Rightarrow>
          if key = [] then ([], Inr (PNone, PNone))
          else
            (case http_get svc (geocode_url city region key) of
               RequestFailed \<Rightarrow> ([HttpGet (geocode_url city region key)], Inr (PNone, PNone))
             | BadJson \<Rightarrow> ([HttpGet (geocode_url city region key)], Inr (PNone, PNone))
             | Json data \<Rightarrow> ([HttpGet (geocode_url city region key)], read_location data)))"

section \<open>Interpretation (\<^verbatim>\<open>generate_horoscope_interpretation\<close>)\<close>

text \<open>
  The format \<^verbatim>\<open>.2f\<close>: two decimals, ties to even (on the real number; the binary
  representation of floats is not modelled).
\<close>

fun digits_of :: "nat \<Rightarrow> ustr" where
  "digits_of n = (if n < 10 then [0x30 + n] else digits_of (n div 10) @ [0x30 + n mod 10])"

definition round_half_even :: "real \<Rightarrow> int" where
  "round_half_even x =
     (if x - of_int \<lfloor>x\<rfloor> < 1 / 2 then \<lfloor>x\<rfloor>
      else if 1 / 2 < x - of_int \<lfloor>x\<rfloor> then \<lfloor>x\<rfloor> + 1
      else if even \<lfloor>x\<rfloor> then \<lfloor>x\<rfloor> else \<lfloor>x\<rfloor> + 1)"

definition format_2f :: "real \<Rightarrow> ustr" where
  "format_2f x =
     (let q = nat (round_half_even (\<bar>x\<bar> * 100))
      in (if x < 0 then [0x2d] else []) @ digits_of (q div 100) @ [0x2e] @
         [0x30 + (q mod 100) div 10, 0x30 + q mod 10])"

text \<open>A value used as a number: floats, integers and booleans; anything else raises.\<close>

fun number :: "pyval \<Rightarrow> exn + real" where
  "number (PFloat r) = Inr r"
| "number (PInt i) = Inr (of_int i)"
| "number (PBool b) = Inr (if b then 1 else 0)"
| "number v = Inl TypeError"

text \<open>
  One line of the prompt, \<^verbatim>\<open>- name: sign (longitude)\<close>. The source has the same line in
  both branches of the test for ASC and MC. Only component 0 of the entry is read.
\<close>

definition position_line :: "ustr \<Rightarrow> pyval \<Rightarrow> exn + ustr" where
  "position_line name pos =
     (if name \<in> set [ascii ''ASC'', ascii ''MC''] then
        bind_exn (subscript pos 0) (\<lambda>x.
        bind_exn (number x) (\<lambda>longitude.
        bind_exn (get_zodiac_sign longitude) (\<lambda>sign.
          Inr (ascii ''- '' @ name @ ascii '': '' @ sign @ ascii '' ('' @
               format_2f longitude @ prompt_degrees))))
      else
        bind_exn (subscript pos 0) (\<lambda>x.
        bind_exn (number x) (\<lambda>longitude.
        bind_exn (get_zodiac_sign longitude) (\<lambda>sign.
          Inr (ascii ''- '' @ name @ ascii '': '' @ sign @ ascii '' ('' @
               format_2f longitude @ prompt_degrees)))))"

fun position_lines :: "chart \<Rightarrow> ustr list \<Rightarrow> exn + ustr list" where
  "position_lines [] prompt_parts = Inr prompt_parts"
| "position_lines ((name, pos) # rest) prompt_parts =
     bind_exn (position_line name pos) (\<lambda>line. position_lines rest (prompt_parts @ [line]))"

text \<open>\<^verbatim>\<open>needle in text\<close> on strings.\<close>

fun contains :: "ustr \<Rightarrow> ustr \<Rightarrow> bool" where
  "contains needle [] \<longleftrightarrow> needle = []"
| "contains needle (c # cs) \<longleftrightarrow> take (length needle) (c # cs) = needle \<or> contains needle cs"

text \<open>
  The text returned for an exception, chosen by what \<^verbatim>\<open>str(e)\<close> contains. The messages
  of the built-in exceptions raised while the prompt is built contain none of the five
  markers, so they get the last text.
\<close>

definition error_text :: "exn \<Rightarrow> ustr" where
  "error_text e =
     (case e of
        External s \<Rightarrow>
          if contains (ascii ''403 Client Error'') s \<or> contains (ascii ''Forbidden'') s
          then msg_forbidden
          else if contains (ascii ''Quota exceeded'') s \<or> contains (ascii ''rate limit'') s
          then msg_quota
          else if contains (ascii ''timeout'') s then msg_timeout
          else msg_network_error
      | _ \<Rightarrow> msg_network_error)"

text \<open>The key of the text-generation service is a non-empty literal of the source.\<close>

definition gemini_api_key_set :: bool where
  "gemini_api_key_set \<longleftrightarrow> True"

definition generate_horoscope_interpretation :: "services \<Rightarrow> chart \<Rightarrow> event list \<times> ustr" where
  "generate_horoscope_interpretation svc natal_positions =
     (if \<not> gemini_api_key_set then ([], msg_no_api_key)
      else
        (case position_lines natal_positions [prompt_header, prompt_positions] of
           Inl e \<Rightarrow> ([], error_text e)
         | Inr parts \<Rightarrow>
             (case generate_content svc (parts @ [prompt_footer]) of
                GeminiText t \<Rightarrow> ([GenerateContent (parts @ [prompt_footer])], t)
              | GeminiNoText \<Rightarrow> ([GenerateContent (parts @ [prompt_footer])], msg_no_response)
              | GeminiRaises s \<Rightarrow>
                  ([GenerateContent (parts @ [prompt_footer])], error_text (External s)))))"

section \<open>The message handler (\<^verbatim>\<open>handle_message\<close>)\<close>

text \<open>
  \<^verbatim>\<open>str.lower\<close>, on the ASCII letters. Other cased letters are left as they are; no
  letter has a lower-case form in the greeting, which is all the result is compared with.
\<close>

definition lower :: "ustr \<Rightarrow> ustr" where
  "lower s = map (\<lambda>c. if 0x41 \<le> c \<and> c \<le> 0x5a then c + 0x20 else c) s"

text \<open>
  The \<^verbatim>\<open>try\<close> block. Splitting at commas must give three parts; the first part is split
  at spaces and its pieces 0 and 1 are the date and the time.
\<close>

definition request_body :: "services \<Rightarrow> ustr \<Rightarrow> unit action" where
  "request_body svc user_message =
     (case map strip (split 0x2c user_message) of
        [first, region, city] \<Rightarrow>
          seq (pure (getitem (split 0x20 first) 0)) (\<lambda>birth_date_str.
          seq (pure (getitem (split 0x20 first) 1)) (\<lambda>birth_time_str.
          seq (pure (strptime birth_date_str fmt_date)) (\<lambda>_.
          seq (pure (strptime birth_time_str fmt_time)) (\<lambda>_.
          seq (send svc (Reply msg_loading)) (\<lambda>_.
          seq (get_coordinates svc city region) (\<lambda>(lat, lon).
            if lat = PNone \<or> lon = PNone then send svc (Push msg_no_coordinates)
            else
              seq ([CalculateChart birth_date_str birth_time_str lat lon],
                   Inr (calculate_natal_chart (ephemeris_of svc)
                          birth_date_str birth_time_str lat lon))
                (\<lambda>natal_positions.
                   case natal_positions of
                     None \<Rightarrow> send svc (Push msg_calculation_failed)
                   | Some chart \<Rightarrow>
                       seq (case generate_horoscope_interpretation svc chart of
                              (tr, interpretation) \<Rightarrow> (tr, Inr interpretation))
                         (\<lambda>interpretation.
                            send svc (Push (msg_result_prefix @ interpretation))))))))))
      | _ \<Rightarrow> send svc (Reply msg_invalid_format))"

datatype outcome = Returned | Raised exn

definition finish :: "event list \<Rightarrow> unit action \<Rightarrow> event list \<times> outcome" where
  "finish tr m =
     (case m of
        (tr', Inl e) \<Rightarrow> (tr @ tr', Raised e)
      | (tr', Inr _) \<Rightarrow> (tr @ tr', Returned))"

text \<open>
  The handler: the greeting is answered first; otherwise the \<^verbatim>\<open>try\<close> block runs, a
  \<^verbatim>\<open>ValueError\<close> from it is answered with the date and time guidance, any other exception
  with the text for unexpected errors. An exception of the messaging API inside a
  handler, or while answering the greeting, leaves the function.
\<close>

definition handle_message :: "services \<Rightarrow> ustr \<Rightarrow> event list \<times> outcome" where
  "handle_message svc text =
     (let user_message = strip text
      in if lower user_message = greeting then finish [] (send svc (Reply msg_greeting))
         else
           (case request_body svc user_message of
              (tr, Inr _) \<Rightarrow> (tr, Returned)
            | (tr, Inl ValueError) \<Rightarrow> finish tr (send svc (Reply msg_invalid_datetime))
            | (tr, Inl e) \<Rightarrow> finish tr (send svc (Push msg_unexpected_error))))"

text \<open>
  Stand-in services for instantiating the theorems: the messaging API accepts every call,
  the geocoder answers every request with \<^verbatim>\<open>ZERO_RESULTS\<close>, the text generation returns a
  fixed text.
\<close>

definition example_services :: services where
  "example_services =
     \<lparr>google_geocoding_api_key = Some (ascii ''key''),
      http_get = (\<lambda>url. Json (PDict [(ascii ''status'', PStr (ascii ''ZERO_RESULTS'')),
                                     (ascii ''results'', PList [])])),
      line_ok = (\<lambda>call. True),
      generate_content = (\<lambda>parts. GeminiText (ascii ''ok'')),
      ephemeris_of = example_ephemeris\<rparr>"

section \<open>Properties of the zodiac classifier\<close>

lemma length_zodiac_signs: "length zodiac_signs = 12"
  by (simp add: zodiac_signs_def)

lemma distinct_zodiac_signs: "distinct zodiac_signs"
  by (simp add: zodiac_signs_def)

text \<open>The index \<^verbatim>\<open>int(longitude / 30) % 12\<close> is always a valid position of the list.\<close>

lemma get_zodiac_sign_index:
  "get_zodiac_sign L = Inr (zodiac_signs ! nat (py_int (L / 30) mod 12))"
  by (simp add: get_zodiac_sign_def getitem_def Let_def length_zodiac_signs nat_less_iff)

lemma py_int_nonneg: "0 \<le> x \<Longrightarrow> py_int x = \<lfloor>x\<rfloor>"
  by (simp add: py_int_def)

text \<open>
  On non-negative longitudes truncation and floor agree, and adding whole turns does not
  change the sign.
\<close>

lemma get_zodiac_sign_periodic_nonneg:
  assumes "0 \<le> L"
  shows "get_zodiac_sign (L + 360 * real k) = get_zodiac_sign L"
proof -
  have "(L + 360 * real k) / 30 = L / 30 + of_int (12 * int k)" by simp
  then have "\<lfloor>(L + 360 * real k) / 30\<rfloor> = \<lfloor>L / 30\<rfloor> + 12 * int k"
    by (simp only: floor_add_int)
  moreover have "0 \<le> L + 360 * real k" using assms by simp
  ultimately have "py_int ((L + 360 * real k) / 30) mod 12 = py_int (L / 30) mod 12"
    using assms by (simp add: py_int_def)
  then show ?thesis by (simp add: get_zodiac_sign_index)
qed

text \<open>
  Claim C1 (periodicity with period 360 over all real longitudes). The code truncates
  \<^verbatim>\<open>longitude / 30\<close> towards zero before taking \<^verbatim>\<open>% 12\<close>, so a negative longitude
  that is not a multiple of 30 is classified one band too high: the longitude -10 is
  classified as the first sign (Aries), whereas -10 + 360 = 350 is classified as the
  twelfth sign (Pisces). Periodicity fails at L = -10, k = 1.
\<close>

theorem zodiac_negative_not_periodic:
  "get_zodiac_sign (-10) = Inr [0x7261, 0x7f8a, 0x5ea7] \<and>
   get_zodiac_sign (-10 + 360 * 1) = Inr [0x9b5a, 0x5ea7] \<and>
   get_zodiac_sign (-10) \<noteq> get_zodiac_sign (-10 + 360 * 1)"
  by (simp add: get_zodiac_sign_index py_int_def zodiac_signs_def)

text \<open>
  Claim C2 (closed-open 30-degree bands on [0,360)). For every longitude L with
  0 \<le> L < 360 the sign is the entry of the table at position floor(L / 30) mod 12,
  which is a valid position; equivalently a longitude in the band [30k, 30k + 30) of
  k < 12 gets the k-th sign. At the named boundaries: 0 and 29.999 give the first sign,
  30 gives the second, 359.999999 gives the twelfth, and 360.0 is classified like 0.0.
\<close>

theorem zodiac_band_rule:
  "(0 \<le> L \<and> L < 360 \<longrightarrow>
      get_zodiac_sign L = Inr (zodiac_signs ! nat (\<lfloor>L / 30\<rfloor> mod 12)) \<and>
      nat (\<lfloor>L / 30\<rfloor> mod 12) < length zodiac_signs) \<and>
   (\<forall>k < 12. 30 * real k \<le> L \<and> L < 30 * real k + 30 \<longrightarrow>
      get_zodiac_sign L = Inr (zodiac_signs ! k)) \<and>
   get_zodiac_sign 0 = Inr [0x7261, 0x7f8a, 0x5ea7] \<and>
   get_zodiac_sign 29.999 = Inr [0x7261, 0x7f8a, 0x5ea7] \<and>
   get_zodiac_sign 30 = Inr [0x7261, 0x725b, 0x5ea7] \<and>
   get_zodiac_sign 359.999999 = Inr [0x9b5a, 0x5ea7] \<and>
   get_zodiac_sign 360.0 = get_zodiac_sign 0.0"
proof (intro conjI impI allI)
  assume a: "0 \<le> L \<and> L < 360"
  then have "py_int (L / 30) = \<lfloor>L / 30\<rfloor>" by (simp add: py_int_nonneg)
  then show "get_zodiac_sign L = Inr (zodiac_signs ! nat (\<lfloor>L / 30\<rfloor> mod 12))"
    by (simp add: get_zodiac_sign_index)
  show "nat (\<lfloor>L / 30\<rfloor> mod 12) < length zodiac_signs"
    by (simp add: length_zodiac_signs nat_less_iff)
next
  fix k :: nat
  assume k: "k < 12" and b: "30 * real k \<le> L \<and> L < 30 * real k + 30"
  have "real k \<le> L / 30" "L / 30 < real k + 1" using b by auto
  then have fl: "\<lfloor>L / 30\<rfloor> = int k" by (simp add: floor_eq_iff)
  have "0 \<le> L / 30" using \<open>real k \<le> L / 30\<close> by (meson of_nat_0_le_iff order_trans)
  then have "py_int (L / 30) = int k" using fl by (simp add: py_int_def)
  then show "get_zodiac_sign L = Inr (zodiac_signs ! k)"
    using k by (simp add: get_zodiac_sign_index)
qed (simp_all add: get_zodiac_sign_index py_int_def zodiac_signs_def)

theorem zodiac_band_rule_witness:
  "(0 \<le> (45::real) \<and> (45::real) < 360) \<and> (1::nat) < 12 \<and>
   30 * real 1 \<le> 45 \<and> (45::real) < 30 * real 1 + 30 \<and>
   get_zodiac_sign 45 = Inr [0x7261, 0x725b, 0x5ea7]"
  using zodiac_band_rule [of 45] by (simp add: zodiac_signs_def)

text \<open>
  Claim C3 (totality). For every real longitude the classifier returns a value, never
  an exception; the value is one of the twelve names of the table, which are pairwise
  different; and the computed index \<^verbatim>\<open>int(L / 30) % 12\<close> lies in 0..11.
\<close>

theorem zodiac_total:
  "(\<exists>s. get_zodiac_sign L = Inr s \<and> s \<in> set zodiac_signs) \<and>
   0 \<le> py_int (L / 30) mod 12 \<and> py_int (L / 30) mod 12 < int (length zodiac_signs) \<and>
   length zodiac_signs = 12 \<and> distinct zodiac_signs"
proof -
  have "nat (py_int (L / 30) mod 12) < length zodiac_signs"
    by (simp add: length_zodiac_signs nat_less_iff)
  then have "zodiac_signs ! nat (py_int (L / 30) mod 12) \<in> set zodiac_signs"
    by (rule nth_mem)
  then show ?thesis
    by (simp add: get_zodiac_sign_index length_zodiac_signs distinct_zodiac_signs)
qed

section \<open>Properties of the natal chart\<close>

lemma bind_exn_Inr_iff: "bind_exn m f = Inr y \<longleftrightarrow> (\<exists>x. m = Inr x \<and> f x = Inr y)"
  by (cases m) (simp_all add: bind_exn_def)

lemma bind_exn_Inl: "bind_exn (Inl e) f = Inl e"
  by (simp add: bind_exn_def)

lemma bind_exn_Inr: "bind_exn (Inr x) f = f x"
  by (simp add: bind_exn_def)

lemma dict_set_fresh: "k \<notin> fst ` set kvs \<Longrightarrow> dict_set kvs k v = kvs @ [(k, v)]"
  by (induction kvs) auto

lemma planet_position_Inr:
  assumes "planet_position eph jd_utc p = Inr pos"
  shows "\<exists>jd r xx ret x0 x1. subscript jd_utc 0 = Inr jd \<and> calc_ut eph jd p FLG_SWIEPH = Inr r \<and>
           unpack2 r = Inr (xx, ret) \<and> subscript xx 0 = Inr x0 \<and> subscript xx 1 = Inr x1 \<and>
           pos = PTuple [x0, x1]"
  using assms by (auto simp: planet_position_def bind_exn_Inr_iff split: prod.splits)

text \<open>
  The loop over the planets, when it ends normally, has appended one entry per planet,
  in order, each the position computed for that planet.
\<close>

lemma calc_planets_Inr:
  assumes "calc_planets eph jd_utc ps np0 = Inr np"
    and "distinct (map fst ps)" and "fst ` set ps \<inter> fst ` set np0 = {}"
  shows "\<exists>vals. np = np0 @ zip (map fst ps) vals \<and>
           list_all2 (\<lambda>np v. planet_position eph jd_utc (snd np) = Inr v) ps vals"
  using assms
proof (induction ps arbitrary: np0)
  case Nil
  then show ?case by simp
next
  case (Cons a ps)
  obtain name p where a: "a = (name, p)" by (cases a)
  from Cons.prems(1) obtain pos where pos: "planet_position eph jd_utc p = Inr pos"
    and rest: "calc_planets eph jd_utc ps (dict_set np0 name pos) = Inr np"
    by (auto simp: a bind_exn_Inr_iff)
  have fresh: "name \<notin> fst ` set np0" using Cons.prems(3) by (auto simp: a)
  then have ds: "dict_set np0 name pos = np0 @ [(name, pos)]" by (rule dict_set_fresh)
  have "fst ` set ps \<inter> fst ` set (np0 @ [(name, pos)]) = {}"
    using Cons.prems(2,3) by (auto simp: a)
  with Cons.IH [of "np0 @ [(name, pos)]"] rest ds Cons.prems(2)
  obtain vals where "np = (np0 @ [(name, pos)]) @ zip (map fst ps) vals"
    and "list_all2 (\<lambda>np v. planet_position eph jd_utc (snd np) = Inr v) ps vals"
    by auto
  then have "np = np0 @ zip (map fst (a # ps)) (pos # vals) \<and>
     list_all2 (\<lambda>np v. planet_position eph jd_utc (snd np) = Inr v) (a # ps) (pos # vals)"
    using pos by (simp add: a)
  then show ?case by blast
qed

text \<open>An exception in the round of any planet ends the loop with an exception.\<close>

lemma calc_planets_Inl:
  assumes "(name, p) \<in> set ps" and "planet_position eph jd_utc p = Inl e"
  shows "\<exists>e'. calc_planets eph jd_utc ps np0 = Inl e'"
  using assms
proof (induction ps arbitrary: np0)
  case Nil
  then show ?case by simp
next
  case (Cons a ps)
  obtain n q where a: "a = (n, q)" by (cases a)
  show ?case
  proof (cases "planet_position eph jd_utc q")
    case (Inl e1)
    then show ?thesis by (simp add: a bind_exn_Inl)
  next
    case (Inr pos)
    then have "(name, p) \<in> set ps" using Cons.prems by (auto simp: a)
    from Cons.IH [OF this Cons.prems(2)] Inr show ?thesis by (simp add: a bind_exn_Inr)
  qed
qed

lemma distinct_planet_names: "distinct (map fst planets)"
  by (simp add: planets_def ascii_def)

lemma angles_not_planets:
  "ascii ''ASC'' \<notin> fst ` set planets" "ascii ''MC'' \<notin> fst ` set planets"
  "ascii ''ASC'' \<noteq> ascii ''MC''"
  by (simp_all add: planets_def ascii_def)

text \<open>The steps behind a chart: each one succeeded, and the chart is exactly their results.\<close>

lemma chart_body_Inr:
  assumes "chart_body eph d t lat lon = Inr chart"
  shows "\<exists>dt u jd_utc jd vals r cusps ascmc ret asc mc.
           strptime (d @ ascii '' '' @ t) fmt_datetime = Inr dt \<and>
           localize_to_utc eph (ascii ''Asia/Tokyo'') dt = Inr u \<and>
           utc_to_jd eph (year u) (month u) (day u) (hour u) (minute u) (second u) FLG_SWIEPH
             = Inr jd_utc \<and>
           list_all2 (\<lambda>np v. planet_position eph jd_utc (snd np) = Inr v) planets vals \<and>
           subscript jd_utc 0 = Inr jd \<and>
           houses eph jd lat lon (ascii ''P'') = Inr r \<and>
           unpack3 r = Inr (cusps, ascmc, ret) \<and>
           subscript ascmc 0 = Inr asc \<and> subscript ascmc 1 = Inr mc \<and>
           chart = zip (map fst planets) vals @
                     [(ascii ''ASC'', PTuple [asc]), (ascii ''MC'', PTuple [mc])] \<and>
           (\<forall>(name, p) \<in> set planets. \<exists>pos.
              planet_position eph jd_utc p = Inr pos \<and> map_of chart name = Some pos) \<and>
           map_of chart (ascii ''ASC'') = Some (PTuple [asc]) \<and>
           map_of chart (ascii ''MC'') = Some (PTuple [mc])"
proof -
  from assms obtain dt u jd_utc np jd r cusps ascmc ret asc mc where
    s1: "strptime (d @ ascii '' '' @ t) fmt_datetime = Inr dt" and
    s2: "localize_to_utc eph (ascii ''Asia/Tokyo'') dt = Inr u" and
    s3: "utc_to_jd eph (year u) (month u) (day u) (hour u) (minute u) (second u) FLG_SWIEPH
             = Inr jd_utc" and
    s4: "calc_planets eph jd_utc planets [] = Inr np" and
    s5: "subscript jd_utc 0 = Inr jd" and
    s6: "houses eph jd lat lon (ascii ''P'') = Inr r" and
    s7: "unpack3 r = Inr (cusps, ascmc, ret)" and
    s8: "subscript ascmc 0 = Inr asc" and s9: "subscript ascmc 1 = Inr mc" and
    ch: "chart = dict_set (dict_set np (ascii ''ASC'') (PTuple [asc])) (ascii ''MC'') (PTuple [mc])"
    by (auto simp: chart_body_def bind_exn_Inr_iff split: prod.splits)
  from calc_planets_Inr [OF s4 distinct_planet_names] obtain vals where
    np: "np = zip (map fst planets) vals" and
    la: "list_all2 (\<lambda>np v. planet_position eph jd_utc (snd np) = Inr v) planets vals"
    by auto
  have len: "length vals = length planets" using la by (simp add: list_all2_lengthD)
  have keys: "map fst np = map fst planets" using np len by simp
  have "ascii ''ASC'' \<notin> fst ` set np" "ascii ''MC'' \<notin> fst ` set np"
    using angles_not_planets keys by (metis list.set_map)+
  then have ch': "chart = np @ [(ascii ''ASC'', PTuple [asc]), (ascii ''MC'', PTuple [mc])]"
    using ch angles_not_planets(3) by (simp add: dict_set_fresh)
  have none: "map_of np (ascii ''ASC'') = None" "map_of np (ascii ''MC'') = None"
    using \<open>ascii ''ASC'' \<notin> fst ` set np\<close> \<open>ascii ''MC'' \<notin> fst ` set np\<close>
    by (simp_all add: map_of_eq_None_iff)
  have asc: "map_of chart (ascii ''ASC'') = Some (PTuple [asc])"
    unfolding ch' using none by (simp add: map_add_def)
  have mc: "map_of chart (ascii ''MC'') = Some (PTuple [mc])"
    unfolding ch' using none angles_not_planets(3) [THEN not_sym] by (simp add: map_add_def)
  have pl: "\<forall>(name, p) \<in> set planets. \<exists>pos.
              planet_position eph jd_utc p = Inr pos \<and> map_of chart name = Some pos"
  proof (clarify)
    fix name p
    assume "(name, p) \<in> set planets"
    then obtain i where i: "i < length planets" "planets ! i = (name, p)"
      by (auto simp: in_set_conv_nth)
    then have pp: "planet_position eph jd_utc p = Inr (vals ! i)"
      using la by (auto dest: list_all2_nthD)
    have "(name, vals ! i) \<in> set np"
      unfolding np using i len by (auto simp: set_zip intro!: exI [of _ i])
    moreover have "distinct (map fst np)"
      using keys distinct_planet_names by simp
    ultimately have "map_of np name = Some (vals ! i)"
      by (rule map_of_is_SomeI [rotated])
    then have "map_of chart name = Some (vals ! i)"
      unfolding ch' by (simp add: map_add_Some_iff)
    with pp show "\<exists>pos. planet_position eph jd_utc p = Inr pos \<and> map_of chart name = Some pos"
      by blast
  qed
  from s1 s2 s3 la s5 s6 s7 s8 s9 np ch' asc mc pl show ?thesis by blast
qed

lemma calculate_natal_chart_Some:
  "calculate_natal_chart eph d t lat lon = Some chart \<longleftrightarrow> chart_body eph d t lat lon = Inr chart"
  by (simp add: calculate_natal_chart_def split: sum.splits)

lemma calculate_natal_chart_None:
  "calculate_natal_chart eph d t lat lon = None \<longleftrightarrow> (\<exists>e. chart_body eph d t lat lon = Inl e)"
  by (simp add: calculate_natal_chart_def split: sum.splits)

lemma planet_entries:
  assumes "list_all2 (\<lambda>np v. planet_position eph jd_utc (snd np) = Inr v) ps vals"
    and "(name, pos) \<in> set (zip (map fst ps) vals)"
  shows "\<exists>p. (name, p) \<in> set ps \<and> planet_position eph jd_utc p = Inr pos"
  using assms
proof (induction ps vals rule: list_all2_induct)
  case Nil
  then show ?case by simp
next
  case (Cons x xs y ys)
  then show ?case by (cases x) auto
qed

lemma chart_body_planet_fails:
  assumes "strptime (d @ ascii '' '' @ t) fmt_datetime = Inr dt"
    and "localize_to_utc eph (ascii ''Asia/Tokyo'') dt = Inr u"
    and "utc_to_jd eph (year u) (month u) (day u) (hour u) (minute u) (second u) FLG_SWIEPH
           = Inr jd_utc"
    and "(name, p) \<in> set planets" and "planet_position eph jd_utc p = Inl e"
  shows "calculate_natal_chart eph d t lat lon = None"
proof -
  from calc_planets_Inl [OF assms(4,5)] obtain e' where
    "calc_planets eph jd_utc planets [] = Inl e'" by blast
  then show ?thesis
    using assms(1-3) by (simp add: calculate_natal_chart_def chart_body_def bind_exn_def)
qed

subsection \<open>Evaluation on concrete inputs\<close>

text \<open>Below the first non-ASCII digit zero only the ASCII digits are decimal digits.\<close>

lemma decimal_value_low:
  "c < 0x660 \<Longrightarrow>
   decimal_value c = (if 0x30 \<le> c \<and> c \<le> 0x39 then Some (c - 0x30) else None)"
  by (simp add: decimal_value_def decimal_zeros_def)

lemma isdecimal_low: "c < 0x660 \<Longrightarrow> isdecimal c \<longleftrightarrow> 0x30 \<le> c \<and> c \<le> 0x39"
  by (simp add: isdecimal_def decimal_value_low)

lemmas strptime_eval =
  ascii_def strptime_def fmt_date_def fmt_time_def fmt_datetime_def dig_def one_def
  isdecimal_low decimal_value_low isspace_def group_int_def int_of_text_def strip_def
  bind_exn_def days_in_month_def isleap_def

lemmas chart_eval =
  calculate_natal_chart_def chart_body_def planets_def planet_position_def
  unpack2_def unpack3_def unpack_def getitem_def



subsection \<open>What a returned chart holds\<close>

text \<open>
  If a chart is returned, its keys are Sun, Moon, Mercury, Venus, Mars, Jupiter, Saturn,
  Uranus, Neptune, Pluto, ASC and MC, in this order, each once.
\<close>

lemma returned_chart_keys:
  assumes "calculate_natal_chart eph d t lat lon = Some chart"
  shows "map fst chart =
           map ascii [''Sun'', ''Moon'', ''Mercury'', ''Venus'', ''Mars'', ''Jupiter'', ''Saturn'',
                      ''Uranus'', ''Neptune'', ''Pluto'', ''ASC'', ''MC''] \<and>
         length chart = 12 \<and> distinct (map fst chart)"
proof -
  from assms have "chart_body eph d t lat lon = Inr chart"
    by (simp add: calculate_natal_chart_Some)
  from chart_body_Inr [OF this] obtain jd_utc vals asc mc where
    la: "list_all2 (\<lambda>np v. planet_position eph jd_utc (snd np) = Inr v) planets vals" and
    ch: "chart = zip (map fst planets) vals @
                   [(ascii ''ASC'', PTuple [asc]), (ascii ''MC'', PTuple [mc])]"
    by blast
  have len: "length vals = length planets" using la by (simp add: list_all2_lengthD)
  have keys: "map fst chart = map fst planets @ [ascii ''ASC'', ascii ''MC'']"
    using ch len by simp
  then have "map fst chart =
           map ascii [''Sun'', ''Moon'', ''Mercury'', ''Venus'', ''Mars'', ''Jupiter'', ''Saturn'',
                      ''Uranus'', ''Neptune'', ''Pluto'', ''ASC'', ''MC'']"
    by (simp add: planets_def)
  moreover have "length chart = 12" using ch len by (simp add: planets_def)
  moreover have "distinct (map fst chart)"
    unfolding keys using distinct_planet_names angles_not_planets by simp
  ultimately show ?thesis by blast
qed

text \<open>
  It is returned only when every step succeeded, and its entries are the values read
  from the answers of the library: \<^verbatim>\<open>(xx[0], xx[1])\<close> of \<^verbatim>\<open>calc_ut\<close> for each body,
  \<^verbatim>\<open>(ascmc[0],)\<close> and \<^verbatim>\<open>(ascmc[1],)\<close> of \<^verbatim>\<open>houses\<close> for ASC and MC.
\<close>

lemma returned_chart_steps:
  assumes "calculate_natal_chart eph d t lat lon = Some chart"
  shows "\<exists>dt u jd_utc jd h cusps ascmc hret asc mc.
          strptime (d @ ascii '' '' @ t) fmt_datetime = Inr dt \<and>
          localize_to_utc eph (ascii ''Asia/Tokyo'') dt = Inr u \<and>
          utc_to_jd eph (year u) (month u) (day u) (hour u) (minute u) (second u) FLG_SWIEPH
            = Inr jd_utc \<and>
          subscript jd_utc 0 = Inr jd \<and>
          list_all (\<lambda>(name, p). \<exists>r xx ret x0 x1.
                      calc_ut eph jd p FLG_SWIEPH = Inr r \<and> unpack2 r = Inr (xx, ret) \<and>
                      subscript xx 0 = Inr x0 \<and> subscript xx 1 = Inr x1 \<and>
                      map_of chart name = Some (PTuple [x0, x1])) planets \<and>
          houses eph jd lat lon (ascii ''P'') = Inr h \<and>
          unpack3 h = Inr (cusps, ascmc, hret) \<and>
          subscript ascmc 0 = Inr asc \<and> subscript ascmc 1 = Inr mc \<and>
          map_of chart (ascii ''ASC'') = Some (PTuple [asc]) \<and>
          map_of chart (ascii ''MC'') = Some (PTuple [mc])"
proof -
  from assms have "chart_body eph d t lat lon = Inr chart"
    by (simp add: calculate_natal_chart_Some)
  from chart_body_Inr [OF this] obtain dt u jd_utc jd h cusps ascmc hret asc mc where
    s: "strptime (d @ ascii '' '' @ t) fmt_datetime = Inr dt"
       "localize_to_utc eph (ascii ''Asia/Tokyo'') dt = Inr u"
       "utc_to_jd eph (year u) (month u) (day u) (hour u) (minute u) (second u) FLG_SWIEPH
           = Inr jd_utc"
       "subscript jd_utc 0 = Inr jd"
       "houses eph jd lat lon (ascii ''P'') = Inr h"
       "unpack3 h = Inr (cusps, ascmc, hret)"
       "subscript ascmc 0 = Inr asc" "subscript ascmc 1 = Inr mc"
       "map_of chart (ascii ''ASC'') = Some (PTuple [asc])"
       "map_of chart (ascii ''MC'') = Some (PTuple [mc])" and
    pl: "\<forall>(name, p) \<in> set planets. \<exists>pos.
            planet_position eph jd_utc p = Inr pos \<and> map_of chart name = Some pos"
    by blast
  have "\<exists>r xx ret x0 x1.
          calc_ut eph jd p FLG_SWIEPH = Inr r \<and> unpack2 r = Inr (xx, ret) \<and>
          subscript xx 0 = Inr x0 \<and> subscript xx 1 = Inr x1 \<and>
          map_of chart name = Some (PTuple [x0, x1])"
    if np: "(name, p) \<in> set planets" for name p
  proof -
    from pl np obtain pos where pos: "planet_position eph jd_utc p = Inr pos"
      "map_of chart name = Some pos" by blast
    from planet_position_Inr [OF pos(1)] s(4) obtain r xx ret x0 x1 where
      "calc_ut eph jd p FLG_SWIEPH = Inr r" "unpack2 r = Inr (xx, ret)"
      "subscript xx 0 = Inr x0" "subscript xx 1 = Inr x1" "pos = PTuple [x0, x1]"
      by auto
    with pos(2) show ?thesis by auto
  qed
  then have "list_all (\<lambda>(name, p). \<exists>r xx ret x0 x1.
                      calc_ut eph jd p FLG_SWIEPH = Inr r \<and> unpack2 r = Inr (xx, ret) \<and>
                      subscript xx 0 = Inr x0 \<and> subscript xx 1 = Inr x1 \<and>
                      map_of chart name = Some (PTuple [x0, x1])) planets"
    by (auto simp: list_all_iff)
  with s show ?thesis by blast
qed

subsection \<open>Failing steps\<close>

lemma chart_None_after_jd:
  assumes "strptime (d @ ascii '' '' @ t) fmt_datetime = Inr dt"
    and "localize_to_utc eph (ascii ''Asia/Tokyo'') dt = Inr u"
    and "utc_to_jd eph (year u) (month u) (day u) (hour u) (minute u) (second u) FLG_SWIEPH
           = Inr jd_utc"
    and "subscript jd_utc 0 = Inr jd"
    and "bind_exn (houses eph jd lat lon (ascii ''P'')) (\<lambda>r.
         bind_exn (unpack3 r) (\<lambda>(cusps, ascmc, ret).
         bind_exn (subscript ascmc 0) (\<lambda>asc.
         bind_exn (subscript ascmc 1) (\<lambda>mc. Inr (asc, mc))))) = Inl e"
  shows "calculate_natal_chart eph d t lat lon = None"
proof (cases "calculate_natal_chart eph d t lat lon")
  case None
  then show ?thesis .
next
  case (Some chart)
  from returned_chart_steps [OF this] assms(1-4) obtain h cusps ascmc hret asc mc where
    "houses eph jd lat lon (ascii ''P'') = Inr h" "unpack3 h = Inr (cusps, ascmc, hret)"
    "subscript ascmc 0 = Inr asc" "subscript ascmc 1 = Inr mc"
    by auto
  with assms(5) show ?thesis by (simp add: bind_exn_def)
qed



text \<open>
  Claim C5 (a failing step gives \<^verbatim>\<open>None\<close>, never a partial chart). The steps of the
  computation are: parsing the date and time, the zone conversion, \<^verbatim>\<open>swe.utc_to_jd\<close>, reading
  \<^verbatim>\<open>jd_utc[0]\<close>; for each of the ten bodies \<^verbatim>\<open>swe.calc_ut\<close>, taking its answer apart into
  \<^verbatim>\<open>xx, ret\<close>, reading \<^verbatim>\<open>xx[0]\<close> and \<^verbatim>\<open>xx[1]\<close>; then \<^verbatim>\<open>swe.houses\<close>, taking its answer
  apart into \<^verbatim>\<open>cusps, ascmc, ret\<close>, reading \<^verbatim>\<open>ascmc[0]\<close> and \<^verbatim>\<open>ascmc[1]\<close>. If any one of
  them raises, the result is \<^verbatim>\<open>None\<close>. In every case the result is either \<^verbatim>\<open>None\<close> or a
  chart with all twelve keys; a chart is returned only when every step succeeded, and
  then each entry is exactly the values read from the library's answers, not a default.
\<close>

theorem natal_chart_failure_is_None:
  "(strptime (d @ ascii '' '' @ t) fmt_datetime = Inl e \<longrightarrow>
      calculate_natal_chart eph d t lat lon = None) \<and>
   (strptime (d @ ascii '' '' @ t) fmt_datetime = Inr dt \<longrightarrow>
      (localize_to_utc eph (ascii ''Asia/Tokyo'') dt = Inl e \<longrightarrow>
         calculate_natal_chart eph d t lat lon = None) \<and>
      (localize_to_utc eph (ascii ''Asia/Tokyo'') dt = Inr u \<longrightarrow>
         (utc_to_jd eph (year u) (month u) (day u) (hour u) (minute u) (second u) FLG_SWIEPH
            = Inl e \<longrightarrow>
            calculate_natal_chart eph d t lat lon = None) \<and>
         (utc_to_jd eph (year u) (month u) (day u) (hour u) (minute u) (second u) FLG_SWIEPH
            = Inr jd_utc \<longrightarrow>
            (subscript jd_utc 0 = Inl e \<longrightarrow>
               calculate_natal_chart eph d t lat lon = None) \<and>
            (subscript jd_utc 0 = Inr jd \<longrightarrow>
               ((name, p) \<in> set planets \<longrightarrow>
                  (calc_ut eph jd p FLG_SWIEPH = Inl e \<longrightarrow>
                     calculate_natal_chart eph d t lat lon = None) \<and>
                  (calc_ut eph jd p FLG_SWIEPH = Inr r \<longrightarrow>
                     (unpack2 r = Inl e \<longrightarrow>
                        calculate_natal_chart eph d t lat lon = None) \<and>
                     (unpack2 r = Inr (xx, ret) \<longrightarrow>
                        (subscript xx 0 = Inl e \<longrightarrow>
                           calculate_natal_chart eph d t lat lon = None) \<and>
                        (subscript xx 1 = Inl e \<longrightarrow>
                           calculate_natal_chart eph d t lat lon = None)))) \<and>
               (houses eph jd lat lon (ascii ''P'') = Inl e \<longrightarrow>
                  calculate_natal_chart eph d t lat lon = None) \<and>
               (houses eph jd lat lon (ascii ''P'') = Inr h \<longrightarrow>
                  (unpack3 h = Inl e \<longrightarrow>
                     calculate_natal_chart eph d t lat lon = None) \<and>
                  (unpack3 h = Inr (cusps, ascmc, hret) \<longrightarrow>
                     (subscript ascmc 0 = Inl e \<longrightarrow>
                        calculate_natal_chart eph d t lat lon = None) \<and>
                     (subscript ascmc 1 = Inl e \<longrightarrow>
                        calculate_natal_chart eph d t lat lon = None))))))) \<and>
   (calculate_natal_chart eph d t lat lon = None \<or>
    (\<exists>chart. calculate_natal_chart eph d t lat lon = Some chart \<and>
       map fst chart = map fst planets @ [ascii ''ASC'', ascii ''MC''] \<and>
       (\<exists>dt u jd_utc jd h cusps ascmc hret asc mc.
          strptime (d @ ascii '' '' @ t) fmt_datetime = Inr dt \<and>
          localize_to_utc eph (ascii ''Asia/Tokyo'') dt = Inr u \<and>
          utc_to_jd eph (year u) (month u) (day u) (hour u) (minute u) (second u) FLG_SWIEPH
            = Inr jd_utc \<and>
          subscript jd_utc 0 = Inr jd \<and>
          list_all (\<lambda>(name, p). \<exists>r xx ret x0 x1.
                      calc_ut eph jd p FLG_SWIEPH = Inr r \<and> unpack2 r = Inr (xx, ret) \<and>
                      subscript xx 0 = Inr x0 \<and> subscript xx 1 = Inr x1 \<and>
                      map_of chart name = Some (PTuple [x0, x1])) planets \<and>
          houses eph jd lat lon (ascii ''P'') = Inr h \<and>
          unpack3 h = Inr (cusps, ascmc, hret) \<and>
          subscript ascmc 0 = Inr asc \<and> subscript ascmc 1 = Inr mc \<and>
          map_of chart (ascii ''ASC'') = Some (PTuple [asc]) \<and>
          map_of chart (ascii ''MC'') = Some (PTuple [mc]))))"
proof -
  let ?C = "calculate_natal_chart eph d t lat lon"
  let ?S = "strptime (d @ ascii '' '' @ t) fmt_datetime"
  let ?L = "localize_to_utc eph (ascii ''Asia/Tokyo'') dt"
  let ?J = "utc_to_jd eph (year u) (month u) (day u) (hour u) (minute u) (second u) FLG_SWIEPH"
  have c1: "?C = None" if "?S = Inl e"
    using that by (simp add: calculate_natal_chart_def chart_body_def bind_exn_def)
  have c2: "?C = None" if "?S = Inr dt" "?L = Inl e"
    using that by (simp add: calculate_natal_chart_def chart_body_def bind_exn_def)
  have c3: "?C = None" if "?S = Inr dt" "?L = Inr u" "?J = Inl e"
    using that by (simp add: calculate_natal_chart_def chart_body_def bind_exn_def)
  have pf: "?C = None"
    if "?S = Inr dt" "?L = Inr u" "?J = Inr jd_utc" "(name, p) \<in> set planets"
      "planet_position eph jd_utc p = Inl e"
    using that by (rule chart_body_planet_fails)
  have c4: "?C = None"
    if a: "?S = Inr dt" "?L = Inr u" "?J = Inr jd_utc" and s: "subscript jd_utc 0 = Inl e"
  proof -
    have "(ascii ''Sun'', SUN) \<in> set planets" by (simp add: planets_def)
    moreover have "planet_position eph jd_utc SUN = Inl e"
      using s by (simp add: planet_position_def bind_exn_def)
    ultimately show ?thesis using a by (rule chart_body_planet_fails [rotated 3])
  qed
  have c5: "?C = None"
    if a: "?S = Inr dt" "?L = Inr u" "?J = Inr jd_utc" "subscript jd_utc 0 = Inr jd"
      "(name, p) \<in> set planets" and f: "calc_ut eph jd p FLG_SWIEPH = Inl e"
  proof -
    have "planet_position eph jd_utc p = Inl e"
      using a(4) f by (simp add: planet_position_def bind_exn_def)
    with a show ?thesis by (blast intro: chart_body_planet_fails)
  qed
  have c6: "?C = None"
    if a: "?S = Inr dt" "?L = Inr u" "?J = Inr jd_utc" "subscript jd_utc 0 = Inr jd"
      "(name, p) \<in> set planets" and f: "calc_ut eph jd p FLG_SWIEPH = Inr r" "unpack2 r = Inl e"
  proof -
    have "planet_position eph jd_utc p = Inl e"
      using a(4) f by (simp add: planet_position_def bind_exn_def)
    with a show ?thesis by (blast intro: chart_body_planet_fails)
  qed
  have c7: "?C = None"
    if a: "?S = Inr dt" "?L = Inr u" "?J = Inr jd_utc" "subscript jd_utc 0 = Inr jd"
      "(name, p) \<in> set planets" and f: "calc_ut eph jd p FLG_SWIEPH = Inr r"
      "unpack2 r = Inr (xx, ret)" "subscript xx 0 = Inl e"
  proof -
    have "planet_position eph jd_utc p = Inl e"
      using a(4) f by (simp add: planet_position_def bind_exn_def)
    with a show ?thesis by (blast intro: chart_body_planet_fails)
  qed
  have c8: "?C = None"
    if a: "?S = Inr dt" "?L = Inr u" "?J = Inr jd_utc" "subscript jd_utc 0 = Inr jd"
      "(name, p) \<in> set planets" and f: "calc_ut eph jd p FLG_SWIEPH = Inr r"
      "unpack2 r = Inr (xx, ret)" "subscript xx 1 = Inl e"
  proof -
    have "\<exists>e'. planet_position eph jd_utc p = Inl e'"
      using a(4) f
      by (cases "subscript xx 0") (simp_all add: planet_position_def bind_exn_def)
    with a show ?thesis by (blast intro: chart_body_planet_fails)
  qed
  have c9: "?C = None"
    if a: "?S = Inr dt" "?L = Inr u" "?J = Inr jd_utc" "subscript jd_utc 0 = Inr jd"
      and f: "houses eph jd lat lon (ascii ''P'') = Inl e"
    using a by (rule chart_None_after_jd) (simp add: f bind_exn_def)
  have c10: "?C = None"
    if a: "?S = Inr dt" "?L = Inr u" "?J = Inr jd_utc" "subscript jd_utc 0 = Inr jd"
      and f: "houses eph jd lat lon (ascii ''P'') = Inr h" "unpack3 h = Inl e"
    using a by (rule chart_None_after_jd) (simp add: f bind_exn_def)
  have c11: "?C = None"
    if a: "?S = Inr dt" "?L = Inr u" "?J = Inr jd_utc" "subscript jd_utc 0 = Inr jd"
      and f: "houses eph jd lat lon (ascii ''P'') = Inr h"
        "unpack3 h = Inr (cusps, ascmc, hret)" "subscript ascmc 0 = Inl e"
    using a by (rule chart_None_after_jd) (simp add: f bind_exn_def)
  have c12: "?C = None"
    if a: "?S = Inr dt" "?L = Inr u" "?J = Inr jd_utc" "subscript jd_utc 0 = Inr jd"
      and f: "houses eph jd lat lon (ascii ''P'') = Inr h"
        "unpack3 h = Inr (cusps, ascmc, hret)" "subscript ascmc 1 = Inl e"
  proof (cases "subscript ascmc 0")
    case (Inl e0)
    show ?thesis using a by (rule chart_None_after_jd) (simp add: f Inl bind_exn_def)
  next
    case (Inr asc)
    show ?thesis using a by (rule chart_None_after_jd) (simp add: f Inr bind_exn_def)
  qed
  have last: "?C = None \<or>
    (\<exists>chart. ?C = Some chart \<and>
       map fst chart = map fst planets @ [ascii ''ASC'', ascii ''MC''] \<and>
       (\<exists>dt u jd_utc jd h cusps ascmc hret asc mc.
          strptime (d @ ascii '' '' @ t) fmt_datetime = Inr dt \<and>
          localize_to_utc eph (ascii ''Asia/Tokyo'') dt = Inr u \<and>
          utc_to_jd eph (year u) (month u) (day u) (hour u) (minute u) (second u) FLG_SWIEPH
            = Inr jd_utc \<and>
          subscript jd_utc 0 = Inr jd \<and>
          list_all (\<lambda>(name, p). \<exists>r xx ret x0 x1.
                      calc_ut eph jd p FLG_SWIEPH = Inr r \<and> unpack2 r = Inr (xx, ret) \<and>
                      subscript xx 0 = Inr x0 \<and> subscript xx 1 = Inr x1 \<and>
                      map_of chart name = Some (PTuple [x0, x1])) planets \<and>
          houses eph jd lat lon (ascii ''P'') = Inr h \<and>
          unpack3 h = Inr (cusps, ascmc, hret) \<and>
          subscript ascmc 0 = Inr asc \<and> subscript ascmc 1 = Inr mc \<and>
          map_of chart (ascii ''ASC'') = Some (PTuple [asc]) \<and>
          map_of chart (ascii ''MC'') = Some (PTuple [mc])))"
  proof (cases ?C)
    case None
    then show ?thesis by simp
  next
    case (Some chart)
    have "map fst chart = map fst planets @ [ascii ''ASC'', ascii ''MC'']"
      using returned_chart_keys [OF Some] by (simp add: planets_def)
    with Some returned_chart_steps [OF Some] show ?thesis by simp
  qed
  show ?thesis
    apply (intro conjI impI)
                apply (erule c1)
               apply (erule (1) c2)
              apply (erule (2) c3)
             apply (erule (3) c4)
            apply (erule (5) c5)
           apply (erule (6) c6)
          apply (erule (7) c7)
         apply (erule (7) c8)
        apply (erule (4) c9)
       apply (erule (5) c10)
      apply (erule (6) c11)
     apply (erule (6) c12)
    apply (rule last)
    done
qed

lemma bad_date_rejected:
  "strptime (ascii ''1990-13-40'' @ ascii '' '' @ ascii ''12:30'') fmt_datetime = Inl ValueError"
  by (simp add: strptime_eval)

lemma good_date_accepted:
  "strptime (ascii ''1990-01-01'' @ ascii '' '' @ ascii ''12:30'') fmt_datetime =
     Inr \<lparr>year = 1990, month = 1, day = 1, hour = 12, minute = 30, second = 0\<rparr>"
  by (simp add: strptime_eval)

theorem natal_chart_failure_is_None_witness:
  "strptime (ascii ''1990-13-40'' @ ascii '' '' @ ascii ''12:30'') fmt_datetime = Inl ValueError \<and>
   calculate_natal_chart example_ephemeris (ascii ''1990-13-40'') (ascii ''12:30'')
     (PFloat 35.66) (PFloat 139.75) = None \<and>
   strptime (ascii ''1990-01-01'' @ ascii '' '' @ ascii ''12:30'') fmt_datetime =
     Inr \<lparr>year = 1990, month = 1, day = 1, hour = 12, minute = 30, second = 0\<rparr> \<and>
   localize_to_utc example_ephemeris (ascii ''Asia/Tokyo'')
     \<lparr>year = 1990, month = 1, day = 1, hour = 12, minute = 30, second = 0\<rparr> =
     Inr \<lparr>year = 1990, month = 1, day = 1, hour = 3, minute = 30, second = 0\<rparr> \<and>
   utc_to_jd example_ephemeris 1990 1 1 3 30 0 FLG_SWIEPH =
     Inl (External (ascii ''invalid calendar flag'')) \<and>
   calculate_natal_chart example_ephemeris (ascii ''1990-01-01'') (ascii ''12:30'')
     (PFloat 35.66) (PFloat 139.75) = None"
proof -
  let ?dt = "\<lparr>year = 1990, month = 1, day = 1, hour = 12, minute = 30, second = 0\<rparr>"
  let ?u = "\<lparr>year = 1990, month = 1, day = 1, hour = 3, minute = 30, second = 0\<rparr>"
  have 1: "calculate_natal_chart example_ephemeris (ascii ''1990-13-40'') (ascii ''12:30'')
     (PFloat 35.66) (PFloat 139.75) = None"
    using natal_chart_failure_is_None
      [where d = "ascii ''1990-13-40''" and t = "ascii ''12:30''" and e = ValueError
        and eph = example_ephemeris]
      bad_date_rejected
    by blast
  have l: "localize_to_utc example_ephemeris (ascii ''Asia/Tokyo'') ?dt = Inr ?u"
    by (simp add: example_ephemeris_def)
  have j: "utc_to_jd example_ephemeris 1990 1 1 3 30 0 FLG_SWIEPH =
     Inl (External (ascii ''invalid calendar flag''))"
    by (simp add: example_ephemeris_def)
  have 2: "calculate_natal_chart example_ephemeris (ascii ''1990-01-01'') (ascii ''12:30'')
     (PFloat 35.66) (PFloat 139.75) = None"
    using natal_chart_failure_is_None
      [where d = "ascii ''1990-01-01''" and t = "ascii ''12:30''"
        and e = "External (ascii ''invalid calendar flag'')"
        and eph = example_ephemeris and dt = ?dt and u = ?u]
      good_date_accepted l j
    by simp
  from bad_date_rejected 1 good_date_accepted l j 2 show ?thesis by blast
qed



subsection \<open>The shapes of the entries\<close>

text \<open>
  In a chart that is returned, the entry of each body has two components and the entries
  of ASC and MC have one: reading component 0 works for all of them, reading component 1
  of the ASC or MC entry raises \<^verbatim>\<open>IndexError\<close>.
\<close>

lemma returned_chart_entry_shapes:
  assumes "calculate_natal_chart eph d t lat lon = Some chart"
  shows "list_all (\<lambda>(name, p). \<exists>x0 x1.
            map_of chart name = Some (PTuple [x0, x1]) \<and>
            subscript (PTuple [x0, x1]) 0 = Inr x0 \<and>
            subscript (PTuple [x0, x1]) 1 = Inr x1) planets \<and>
         (\<exists>asc mc.
            map_of chart (ascii ''ASC'') = Some (PTuple [asc]) \<and>
            map_of chart (ascii ''MC'') = Some (PTuple [mc]) \<and>
            subscript (PTuple [asc]) 0 = Inr asc \<and> subscript (PTuple [mc]) 0 = Inr mc \<and>
            subscript (PTuple [asc]) 1 = Inl IndexError \<and>
            subscript (PTuple [mc]) 1 = Inl IndexError)"
proof -
  from returned_chart_steps [OF assms] obtain jd asc mc where
    pl: "list_all (\<lambda>(name, p). \<exists>r xx ret x0 x1.
                      calc_ut eph jd p FLG_SWIEPH = Inr r \<and> unpack2 r = Inr (xx, ret) \<and>
                      subscript xx 0 = Inr x0 \<and> subscript xx 1 = Inr x1 \<and>
                      map_of chart name = Some (PTuple [x0, x1])) planets" and
    a: "map_of chart (ascii ''ASC'') = Some (PTuple [asc])"
       "map_of chart (ascii ''MC'') = Some (PTuple [mc])"
    by blast
  from pl have "list_all (\<lambda>(name, p). \<exists>x0 x1.
            map_of chart name = Some (PTuple [x0, x1]) \<and>
            subscript (PTuple [x0, x1]) 0 = Inr x0 \<and>
            subscript (PTuple [x0, x1]) 1 = Inr x1) planets"
    by (auto simp: list_all_iff getitem_def)
  with a show ?thesis by (auto simp: getitem_def)
qed

subsection \<open>Each step on its own\<close>

text \<open>
  With the variants that depart from the documented interface the later steps are
  reached. If the calendar flag were accepted, the pair returned by \<^verbatim>\<open>houses\<close> would
  still end the computation; and an exception of \<^verbatim>\<open>calc_ut\<close> for one body ends it before
  \<^verbatim>\<open>houses\<close> is called.
\<close>

lemma lenient_ephemeris_pair:
  "houses lenient_ephemeris (PFloat 2447892.6465) (PFloat 35.66) (PFloat 139.75) (ascii ''P'') =
     Inr (PTuple [PTuple (map PFloat [15, 40, 68, 98, 130, 163, 195, 220, 248, 278, 310, 343]),
                  PTuple (map PFloat [15, 270, 271.5, 190, 12, 14, 200, 20, 0, 0])])"
  "unpack3 (PTuple [PTuple (map PFloat [15, 40, 68, 98, 130, 163, 195, 220, 248, 278, 310, 343]),
                    PTuple (map PFloat [15, 270, 271.5, 190, 12, 14, 200, 20, 0, 0])]) =
     Inl ValueError"
  "calculate_natal_chart lenient_ephemeris (ascii ''1990-01-01'') (ascii ''12:30'')
     (PFloat 35.66) (PFloat 139.75) = None"
  by (simp_all add: strptime_eval chart_eval example_ephemeris_def lenient_ephemeris_def)

lemma broken_ephemeris_Mars:
  "calc_ut broken_ephemeris (PFloat 2447892.6465) MARS FLG_SWIEPH =
     Inl (External (ascii ''SwissEph file not found''))"
  "calculate_natal_chart broken_ephemeris (ascii ''1990-01-01'') (ascii ''12:30'')
     (PFloat 35.66) (PFloat 139.75) = None"
  by (simp_all add: strptime_eval chart_eval example_ephemeris_def lenient_ephemeris_def
      broken_ephemeris_def)

section \<open>Properties of the message handler\<close>

lemmas handler_eval =
  handle_message_def request_body_def seq_def pure_def send_def finish_def
  strip_def lower_def isspace_def getitem_def

lemma fst_finish: "fst (finish tr (send svc call)) = tr @ [call]"
  by (simp add: finish_def send_def)

lemma seq_pure_Inr: "seq (pure (Inr x)) f = f x"
  by (cases "f x") (simp add: seq_def pure_def)

lemma seq_pure_Inl: "seq (pure (Inl e)) f = ([], Inl e)"
  by (simp add: seq_def pure_def)

lemma seq_Inr: "seq (tr, Inr x) f = (case f x of (tr', r) \<Rightarrow> (tr @ tr', r))"
  by (simp add: seq_def)

lemma seq_Inl: "seq (tr, Inl e) f = (tr, Inl e)"
  by (simp add: seq_def)

lemma strptime_ValueError: "strptime s f = Inl e \<Longrightarrow> e = ValueError"
  by (auto simp: strptime_def bind_exn_def group_int_def int_of_text_def Let_def
        split: list.splits if_splits sum.splits option.splits)

lemma handle_message_ValueError:
  assumes "lower (strip text) \<noteq> greeting"
    and "request_body svc (strip text) = (tr, Inl ValueError)"
  shows "fst (handle_message svc text) = tr @ [Reply msg_invalid_datetime]"
  using assms by (simp add: handle_message_def Let_def fst_finish)

lemma handle_message_other_exception:
  assumes "lower (strip text) \<noteq> greeting"
    and "request_body svc (strip text) = (tr, Inl e)" and "e \<noteq> ValueError"
  shows "fst (handle_message svc text) = tr @ [Push msg_unexpected_error]"
  using assms by (cases e) (simp_all add: handle_message_def Let_def fst_finish)

lemma handle_message_no_exception:
  assumes "lower (strip text) \<noteq> greeting"
    and "request_body svc (strip text) = (tr, Inr u)"
  shows "handle_message svc text = (tr, Returned)"
  using assms by (simp add: handle_message_def Let_def)

lemma send_cases:
  "send svc call = ([call], Inr ()) \<and> line_ok svc call \<or>
   send svc call = ([call], Inl (External (ascii ''LineBotApiError''))) \<and> \<not> line_ok svc call"
  by (simp add: send_def)

lemma handle_message_ends_with_send:
  assumes "lower (strip text) \<noteq> greeting"
    and "request_body svc (strip text) = (case send svc call of (tr', r) \<Rightarrow> (tr @ tr', r))"
  shows "fst (handle_message svc text) =
           tr @ [call] @ (if line_ok svc call then [] else [Push msg_unexpected_error])"
proof (cases "line_ok svc call")
  case True
  then have "request_body svc (strip text) = (tr @ [call], Inr ())"
    using assms(2) by (simp add: send_def)
  from handle_message_no_exception [OF assms(1) this] True show ?thesis by simp
next
  case False
  then have "request_body svc (strip text) = (tr @ [call], Inl (External (ascii ''LineBotApiError'')))"
    using assms(2) by (simp add: send_def)
  from handle_message_other_exception [OF assms(1) this] False show ?thesis by simp
qed

lemma wrong_shape_reply:
  assumes "lower (strip text) \<noteq> greeting"
    and "length (split 0x2c (strip text)) \<noteq> 3"
  shows "fst (handle_message svc text) =
           [Reply msg_invalid_format] @
           (if line_ok svc (Reply msg_invalid_format) then [] else [Push msg_unexpected_error])"
proof -
  have "request_body svc (strip text) = send svc (Reply msg_invalid_format)"
    using assms(2)
    by (auto simp: request_body_def split: list.splits dest!: arg_cong [where f = length])
  then have "request_body svc (strip text) =
      (case send svc (Reply msg_invalid_format) of (tr', r) \<Rightarrow> ([] @ tr', r))"
    by (simp add: send_def)
  from handle_message_ends_with_send [OF assms(1) this] show ?thesis by simp
qed

lemma wrong_datetime_reply:
  assumes "lower (strip text) \<noteq> greeting"
    and "map strip (split 0x2c (strip text)) = [first, region, city]"
    and "split 0x20 first = birth_date_str # birth_time_str # rest"
    and "strptime birth_date_str fmt_date = Inl e \<or> strptime birth_time_str fmt_time = Inl e"
  shows "fst (handle_message svc text) = [Reply msg_invalid_datetime]"
proof -
  have "request_body svc (strip text) = ([], Inl ValueError)"
  proof (cases "strptime birth_date_str fmt_date")
    case (Inl a)
    then have "strptime birth_date_str fmt_date = Inl ValueError"
      using strptime_ValueError by blast
    then show ?thesis
      by (simp add: request_body_def assms(2,3) getitem_def seq_pure_Inr seq_pure_Inl)
  next
    case (Inr b)
    then have "strptime birth_time_str fmt_time = Inl ValueError"
      using assms(4) strptime_ValueError by auto
    then show ?thesis
      using Inr by (simp add: request_body_def assms(2,3) getitem_def seq_pure_Inr seq_pure_Inl)
  qed
  from handle_message_ValueError [OF assms(1) this] show ?thesis by simp
qed

lemma missing_time_reply:
  assumes "lower (strip text) \<noteq> greeting"
    and "map strip (split 0x2c (strip text)) = [first, region, city]"
    and "split 0x20 first = [birth_date_str]"
  shows "fst (handle_message svc text) = [Push msg_unexpected_error]"
proof -
  have "request_body svc (strip text) = ([], Inl IndexError)"
    by (simp add: request_body_def assms(2,3) getitem_def seq_pure_Inr seq_pure_Inl)
  from handle_message_other_exception [OF assms(1) this] show ?thesis by simp
qed

lemma get_coordinates_trace:
  assumes "get_coordinates svc city region = (tr, r)"
  shows "tr = [] \<or> (\<exists>url. tr = [HttpGet url])"
  using assms
  by (auto simp: get_coordinates_def split: option.splits if_splits http_result.splits)

text \<open>
  When \<^verbatim>\<open>get_coordinates\<close> returns without coordinates: no key, a failed request, a body
  that is not JSON, a status other than \<^verbatim>\<open>OK\<close>, or an empty list of results.
\<close>

lemma get_coordinates_not_found:
  "google_geocoding_api_key svc = None \<Longrightarrow>
     get_coordinates svc city region = ([], Inr (PNone, PNone))"
  "google_geocoding_api_key svc = Some [] \<Longrightarrow>
     get_coordinates svc city region = ([], Inr (PNone, PNone))"
  "google_geocoding_api_key svc = Some key \<Longrightarrow> key \<noteq> [] \<Longrightarrow>
   http_get svc (geocode_url city region key) \<in> {RequestFailed, BadJson} \<Longrightarrow>
     get_coordinates svc city region = ([HttpGet (geocode_url city region key)], Inr (PNone, PNone))"
  "google_geocoding_api_key svc = Some key \<Longrightarrow> key \<noteq> [] \<Longrightarrow>
   http_get svc (geocode_url city region key) = Json (PDict kvs) \<Longrightarrow>
   map_of kvs (ascii ''status'') = Some status \<Longrightarrow> status \<noteq> PStr (ascii ''OK'') \<Longrightarrow>
     get_coordinates svc city region = ([HttpGet (geocode_url city region key)], Inr (PNone, PNone))"
  "google_geocoding_api_key svc = Some key \<Longrightarrow> key \<noteq> [] \<Longrightarrow>
   http_get svc (geocode_url city region key) = Json (PDict kvs) \<Longrightarrow>
   map_of kvs (ascii ''status'') = Some (PStr (ascii ''OK'')) \<Longrightarrow>
   map_of kvs (ascii ''results'') = Some (PList []) \<Longrightarrow>
     get_coordinates svc city region = ([HttpGet (geocode_url city region key)], Inr (PNone, PNone))"
  by (auto simp: get_coordinates_def read_location_def bind_exn_def)

subsection \<open>The scenarios of the specification\<close>

lemma scenario_wrong_shape:
  "handle_message example_services (ascii ''hello'') = ([Reply msg_invalid_format], Returned)"
  by (simp add: handler_eval ascii_def greeting_def example_services_def)

lemma scenario_wrong_date:
  "handle_message example_services (ascii ''1990-13-40 12:30, Tokyo, Minato'') =
     ([Reply msg_invalid_datetime], Returned)"
  by (simp add: handler_eval strptime_eval greeting_def example_services_def)

lemma guidance_texts_differ:
  "distinct [msg_invalid_format, msg_invalid_datetime, msg_unexpected_error,
             msg_no_coordinates, msg_calculation_failed, msg_loading, msg_greeting]"
  by (simp add: msg_invalid_format_def msg_invalid_datetime_def msg_unexpected_error_def
      msg_no_coordinates_def msg_calculation_failed_def msg_loading_def msg_greeting_def)

text \<open>
  Claim C6 (every malformed message is classified as wrong shape or wrong date/time
  syntax). A message with three comma-separated fields whose first field has no space,
  such as \<^verbatim>\<open>1990-01-01,Tokyo,Minato\<close> (the time is missing), makes \<^verbatim>\<open>parts[0].split(' ')[1]\<close>
  raise \<^verbatim>\<open>IndexError\<close>. This is not a \<^verbatim>\<open>ValueError\<close>, so the handler for date and time
  errors is passed over and the catch-all handler pushes the text for unexpected errors,
  which is neither the wrong-shape nor the wrong-date/time guidance.
\<close>

theorem missing_time_is_unclassified:
  "request_body svc (ascii ''1990-01-01,Tokyo,Minato'') = ([], Inl IndexError) \<and>
   fst (handle_message svc (ascii ''1990-01-01,Tokyo,Minato'')) = [Push msg_unexpected_error] \<and>
   handle_message example_services (ascii ''1990-01-01,Tokyo,Minato'') =
     ([Push msg_unexpected_error], Returned) \<and>
   msg_unexpected_error \<noteq> msg_invalid_format \<and>
   msg_unexpected_error \<noteq> msg_invalid_datetime"
proof -
  have "request_body svc (ascii ''1990-01-01,Tokyo,Minato'') = ([], Inl IndexError)"
    by (simp add: handler_eval ascii_def)
  moreover have "fst (handle_message svc (ascii ''1990-01-01,Tokyo,Minato'')) =
      [Push msg_unexpected_error]"
    by (simp add: handler_eval ascii_def greeting_def)
  moreover have "handle_message example_services (ascii ''1990-01-01,Tokyo,Minato'') =
     ([Push msg_unexpected_error], Returned)"
    by (simp add: handler_eval ascii_def greeting_def example_services_def)
  moreover have "msg_unexpected_error \<noteq> msg_invalid_format"
    "msg_unexpected_error \<noteq> msg_invalid_datetime"
    using guidance_texts_differ by auto
  ultimately show ?thesis by blast
qed

text \<open>
  Claim C9 (no coordinates, no chart). For a message that is not the greeting, has three
  fields, and whose date and time parse, once the loading notice has been sent: if
  \<^verbatim>\<open>get_coordinates\<close> returns with the latitude or the longitude \<^verbatim>\<open>None\<close>, the handler
  pushes the text about missing coordinates and stops. The events are the loading notice,
  the events of the lookup, and the push of that text (followed by the push of the text
  for unexpected errors only if the messaging API rejects the first push). There is no
  call of \<^verbatim>\<open>calculate_natal_chart\<close>, no text generation, and at most one HTTP request.
\<close>

theorem geocode_not_found_halts:
  assumes "lower (strip text) \<noteq> greeting"
    and "map strip (split 0x2c (strip text)) = [first, region, city]"
    and "split 0x20 first = birth_date_str # birth_time_str # rest"
    and "strptime birth_date_str fmt_date = Inr d"
    and "strptime birth_time_str fmt_time = Inr t"
    and "line_ok svc (Reply msg_loading)"
    and "get_coordinates svc city region = (tr, Inr (lat, lon))"
    and "lat = PNone \<or> lon = PNone"
  shows "fst (handle_message svc text) =
           [Reply msg_loading] @ tr @ [Push msg_no_coordinates] @
           (if line_ok svc (Push msg_no_coordinates) then [] else [Push msg_unexpected_error]) \<and>
         filter is_chart_call (fst (handle_message svc text)) = [] \<and>
         filter is_generate (fst (handle_message svc text)) = [] \<and>
         length (filter is_http_get (fst (handle_message svc text))) \<le> 1"
proof -
  have "request_body svc (strip text) =
      (case send svc (Push msg_no_coordinates) of (tr', r) \<Rightarrow> (([Reply msg_loading] @ tr) @ tr', r))"
    using assms(4-8)
    by (auto simp: request_body_def assms(2,3) getitem_def pure_def seq_Inr seq_Inl send_def)
  from handle_message_ends_with_send [OF assms(1) this]
  have tr: "fst (handle_message svc text) =
           [Reply msg_loading] @ tr @ [Push msg_no_coordinates] @
           (if line_ok svc (Push msg_no_coordinates) then [] else [Push msg_unexpected_error])"
    by simp
  from get_coordinates_trace [OF assms(7)] have "tr = [] \<or> (\<exists>url. tr = [HttpGet url])" .
  then show ?thesis unfolding tr by auto
qed

theorem geocode_not_found_halts_witness:
  "get_coordinates example_services (ascii ''Nowhere'') (ascii ''Tokyo'') =
     ([HttpGet (geocode_url (ascii ''Nowhere'') (ascii ''Tokyo'') (ascii ''key''))],
      Inr (PNone, PNone)) \<and>
   fst (handle_message example_services (ascii ''1990-01-01 12:30, Tokyo, Nowhere'')) =
     [Reply msg_loading,
      HttpGet (geocode_url (ascii ''Nowhere'') (ascii ''Tokyo'') (ascii ''key'')),
      Push msg_no_coordinates] \<and>
   filter is_chart_call
     (fst (handle_message example_services (ascii ''1990-01-01 12:30, Tokyo, Nowhere''))) = []"
proof -
  have 1: "lower (strip (ascii ''1990-01-01 12:30, Tokyo, Nowhere'')) \<noteq> greeting"
    by (simp add: lower_def strip_def isspace_def ascii_def greeting_def)
  have 2: "map strip (split 0x2c (strip (ascii ''1990-01-01 12:30, Tokyo, Nowhere''))) =
      [ascii ''1990-01-01 12:30'', ascii ''Tokyo'', ascii ''Nowhere'']"
    by (simp add: strip_def isspace_def ascii_def)
  have 3: "split 0x20 (ascii ''1990-01-01 12:30'') = ascii ''1990-01-01'' # ascii ''12:30'' # []"
    by (simp add: ascii_def)
  have 4: "strptime (ascii ''1990-01-01'') fmt_date =
      Inr \<lparr>year = 1990, month = 1, day = 1, hour = 0, minute = 0, second = 0\<rparr>"
    by (simp add: strptime_eval)
  have 5: "strptime (ascii ''12:30'') fmt_time =
      Inr \<lparr>year = 1900, month = 1, day = 1, hour = 12, minute = 30, second = 0\<rparr>"
    by (simp add: strptime_eval)
  have 6: "line_ok example_services (Reply msg_loading)"
    by (simp add: example_services_def)
  have 7: "get_coordinates example_services (ascii ''Nowhere'') (ascii ''Tokyo'') =
     ([HttpGet (geocode_url (ascii ''Nowhere'') (ascii ''Tokyo'') (ascii ''key''))],
      Inr (PNone, PNone))"
    by (simp add: get_coordinates_def read_location_def bind_exn_def example_services_def
        ascii_def)
  have 8: "PNone = PNone \<or> PNone = PNone" by simp
  have 9: "line_ok example_services (Push msg_no_coordinates)"
    by (simp add: example_services_def)
  from geocode_not_found_halts [OF 1 2 3 4 5 6 7 8] 7 9 show ?thesis by simp
qed

end
